theory Spec2Isabelle
  imports Complex_Main
begin

section \<open>Python values, exceptions and observable effects\<close>

text \<open>
  Exceptions raised by the code or by its collaborators are values of \<open>error\<close>; a
  computation that may raise returns \<open>error + 'a\<close>, with \<open>Inl\<close> the exception.
  \<open>External\<close> stands for any exception raised inside a collaborator.
\<close>

datatype error =
    RuntimeError string
  | IndexError
  | ValueError
  | NameError string
  | UnboundLocalError string
  | AssertionError
  | IsADirectoryError
  | StopIteration
  | External string

text \<open>
  What the code emits besides its results: \<open>warnings.warn\<close>, \<open>logger.info\<close> and the
  calls of \<open>torch_gc\<close>. \<open>CompileUnetCall\<close> records that \<open>Script.run\<close> has entered
  \<open>compile_unet\<close>; it is the observation behind the word "recompiles".
\<close>

datatype event =
    WarnUnsupportedModelType
  | WarnReuseCompiledGraph
  | InfoSkipCompile
  | InfoGotCalibrateInfo
  | TorchGc
  | CompileUnetCall

text \<open>A Python object reference is \<open>None\<close> or an object; a global name may have been deleted.\<close>

datatype 'm pyobj = PyNone | Obj 'm

datatype 'a binding = Deleted | Bound 'a

section \<open>The recompile decision: \<open>Script.need_compile\<close>\<close>

text \<open>
  \<open>shared.sd_model\<close> is read only through \<open>getattr(model, key, False)\<close> on the four
  architecture-family flags, so the model object is the partial map of its boolean
  attributes. The signature is a dict, kept as the association list of its items in
  insertion order.
\<close>

type_synonym sd_model = "string \<rightharpoonup> bool"

type_synonym model_type = "(string \<times> bool) list"

definition getattr :: "sd_model \<Rightarrow> string \<Rightarrow> bool \<Rightarrow> bool" where
  "getattr model key dflt = (case model key of None \<Rightarrow> dflt | Some v \<Rightarrow> v)"

definition get_model_type :: "sd_model \<Rightarrow> model_type" where
  "get_model_type model =
     [(''is_sdxl'', getattr model ''is_sdxl'' False),
      (''is_sd2'', getattr model ''is_sd2'' False),
      (''is_sd1'', getattr model ''is_sd1'' False),
      (''is_ssd'', getattr model ''is_ssd'' False)]"

text \<open>The \<open>for key, v in self.current_type.items()\<close> loop with its \<open>break\<close>.\<close>

fun type_differs :: "model_type \<Rightarrow> sd_model \<Rightarrow> bool" where
  "type_differs [] model = False"
| "type_differs ((key, v) # items) model =
     (if v \<noteq> getattr model key False then True else type_differs items model)"

text \<open>
  The state of the web UI script: the module-level globals \<open>compiled_unet\<close> and
  \<open>compiled_ckpt_name\<close>, the attribute \<open>current_type\<close> of the \<open>Script\<close> instance, the
  parts of \<open>shared\<close> the script reads and writes, and the trace of emitted events.
\<close>

record 'm world =
  compiled_unet :: "'m pyobj binding"
  compiled_ckpt_name :: "string option"
  current_type :: "model_type option"
  sd_model_checkpoint :: string
  sd_model :: sd_model
  diffusion_model :: "'m pyobj"
  events :: "event list"

text \<open>
  \<open>need_compile\<close> takes the value of
  \<open>parse_boolean_from_env("ONEFLOW_MLIR_ENABLE_INFERENCE_OPTIMIZATION", "1")\<close> as the
  parameter \<open>mlir_enabled\<close>: the helper is not part of the sources at hand, and it only
  decides whether a warning is emitted.
\<close>

definition need_compile :: "bool \<Rightarrow> sd_model \<Rightarrow> 'm world \<Rightarrow> bool \<times> 'm world" where
  "need_compile mlir_enabled model s =
     (let recompile = (case current_type s of
                         None \<Rightarrow> True
                       | Some items \<Rightarrow> type_differs items model)
      in if recompile then (recompile, s\<lparr>current_type := Some (get_model_type model)\<rparr>)
         else if mlir_enabled then (recompile, s\<lparr>events := events s @ [WarnReuseCompiledGraph]\<rparr>)
         else (recompile, s))"

section \<open>Reading the calibration file: \<open>get_calibrate_info\<close>\<close>

subsection \<open>Strings, lines and paths\<close>

text \<open>
  A character is a code point below 256. The characters \<open>str.strip()\<close> removes among
  them: space, tab, line feed, vertical tab, form feed, carriage return, the four
  separators \<open>0x1C\<close> to \<open>0x1F\<close>, the next-line character \<open>0x85\<close> and the no-break space
  \<open>0xA0\<close>.
\<close>

definition is_space :: "char \<Rightarrow> bool" where
  "is_space c \<longleftrightarrow>
     c \<in> set [CHR '' '', CHR 0x09, CHR 0x0A, CHR 0x0B, CHR 0x0C, CHR 0x0D,
              CHR 0x1C, CHR 0x1D, CHR 0x1E, CHR 0x1F, CHR 0x85, CHR 0xA0]"

definition strip :: "string \<Rightarrow> string" where
  "strip s = rev (dropWhile is_space (rev (dropWhile is_space s)))"

text \<open>\<open>s.split(sep)\<close> for a separator of one character: empty pieces are kept.\<close>

fun split_on :: "char \<Rightarrow> string \<Rightarrow> string list" where
  "split_on sep [] = [[]]"
| "split_on sep (c # cs) =
     (if c = sep then [] # split_on sep cs
      else (case split_on sep cs of [] \<Rightarrow> [[c]] | w # ws \<Rightarrow> (c # w) # ws))"

text \<open>
  \<open>f.readlines()\<close> on a file opened with \<open>open(path, "r")\<close>: universal newlines, so a
  line ends after a line feed, a carriage return or the pair of both, each handed over
  as one line feed; a last line without terminator is kept as it is.
\<close>

fun readlines :: "string \<Rightarrow> string list" where
  "readlines [] = []"
| "readlines [c] = (if c = CHR 0x0A \<or> c = CHR 0x0D then [[CHR 0x0A]] else [[c]])"
| "readlines (c # d # cs) =
     (if c = CHR 0x0A then [CHR 0x0A] # readlines (d # cs)
      else if c = CHR 0x0D then
        (if d = CHR 0x0A then [CHR 0x0A] # readlines cs
         else [CHR 0x0A] # readlines (d # cs))
      else (case readlines (d # cs) of [] \<Rightarrow> [[c]] | l # ls \<Rightarrow> (c # l) # ls))"

text \<open>
  A \<open>pathlib.Path\<close> is the list of its components. \<open>parent\<close> drops the last one, the
  operator \<open>/\<close> with a plain file name appends one, and \<open>stem\<close> is the last component
  without its final suffix: with \<open>i = name.rfind('.')\<close> it is \<open>name[:i]\<close> when
  \<open>0 < i < len(name) - 1\<close> and the whole name otherwise.
\<close>

type_synonym path = "string list"

definition parent :: "path \<Rightarrow> path" where
  "parent p = butlast p"

definition joinpath :: "path \<Rightarrow> string \<Rightarrow> path" where
  "joinpath p name = p @ [name]"

definition stem :: "path \<Rightarrow> string" where
  "stem p =
     (case rev p of
        [] \<Rightarrow> []
      | name # _ \<Rightarrow>
          (let suffix = takeWhile (\<lambda>c. c \<noteq> CHR ''.'') (rev name)
           in if CHR ''.'' \<in> set name \<and> suffix \<noteq> [] \<and> Suc (length suffix) < length name
              then take (length name - Suc (length suffix)) name
              else name))"

datatype fs_entry = RegularFile string | Directory

subsection \<open>The collaborators of the web UI script\<close>

text \<open>
  A context manager is its \<open>__enter__\<close> and its \<open>__exit__\<close>. What \<open>__enter__\<close> keeps on
  the manager object (here \<open>self._original_model\<close>) is handed to \<open>__exit__\<close> as a value.
  \<open>__exit__\<close> receives the exception of the body, if any, and answers whether to
  swallow it; both methods may raise themselves.
\<close>

record ('s, 't) context_manager =
  cm_enter :: "'s \<Rightarrow> (error + 't) \<times> 's"
  cm_exit :: "'t \<Rightarrow> error option \<Rightarrow> 's \<Rightarrow> (error + bool) \<times> 's"

text \<open>The keyword arguments \<open>use_graph\<close> and \<open>options\<close> of \<open>compile_unet\<close>.\<close>

record compile_args =
  use_graph :: bool
  options :: "(string \<times> string) list"

text \<open>A calibration entry is the list \<open>[scale, zero_point, [floats]]\<close>.\<close>

type_synonym 'f calibrate_info = "string \<rightharpoonup> ('f \<times> int \<times> 'f list)"

text \<open>
  Everything the script calls but does not define: the web UI (\<open>select_checkpoint\<close>
  with the path of its \<open>filename\<close>, \<open>process_images\<close>), the file system, Python's
  \<open>float\<close> and \<open>int\<close> on strings, the two \<open>isinstance\<close> tests on the UNet classes, the
  compilers \<open>compile_ldm_unet\<close> and \<open>compile_sgm_unet\<close>, \<open>quantize_model\<close>, the value of
  the environment flag read by \<open>need_compile\<close>, and the three other context managers
  entered by \<open>Script.run\<close>. \<open>'m\<close> is the type of modules, \<open>'f\<close> of floats, \<open>'p\<close> of the
  processing request, \<open>'r\<close> of its result.
\<close>

record ('m, 'f, 'p, 'r, 't) webui =
  select_checkpoint :: "error + path"
  fs :: "path \<rightharpoonup> fs_entry"
  py_float :: "string \<Rightarrow> error + 'f"
  py_int :: "string \<Rightarrow> error + int"
  isinstance_ldm :: "'m \<Rightarrow> bool"
  isinstance_sgm :: "'m \<Rightarrow> bool"
  compile_ldm_unet :: "'m \<Rightarrow> compile_args \<Rightarrow> error + 'm pyobj"
  compile_sgm_unet :: "'m \<Rightarrow> compile_args \<Rightarrow> error + 'm pyobj"
  quantize_model :: "'m pyobj \<Rightarrow> 'f calibrate_info option \<Rightarrow> error + 'm pyobj"
  mlir_opt :: bool
  process_images :: "'p \<Rightarrow> 'm world \<Rightarrow> (error + 'r) \<times> 'm world"
  vae_ctx :: "('m world, 't) context_manager"
  sd21_ctx :: "('m world, 't) context_manager"
  lora_ctx :: "('m world, 't) context_manager"

subsection \<open>\<open>get_calibrate_info\<close>\<close>

text \<open>The comprehension \<open>[float(x) for x in items[3].split(",")]\<close>.\<close>

fun float_list :: "(string \<Rightarrow> error + 'f) \<Rightarrow> string list \<Rightarrow> error + 'f list" where
  "float_list pf [] = Inr []"
| "float_list pf (x # xs) =
     (case pf x of
        Inl e \<Rightarrow> Inl e
      | Inr v \<Rightarrow> (case float_list pf xs of Inl e \<Rightarrow> Inl e | Inr vs \<Rightarrow> Inr (v # vs)))"

text \<open>
  The body of the loop over the lines. The right-hand side of the assignment is evaluated
  first and from left to right, each \<open>items[i]\<close> raising \<open>IndexError\<close> when the line has
  too few items; the key \<open>items[0]\<close> is read last.
\<close>

definition calibrate_entry ::
  "('m, 'f, 'p, 'r, 't) webui \<Rightarrow> string \<Rightarrow> error + (string \<times> ('f \<times> int \<times> 'f list))" where
  "calibrate_entry env line0 =
     (let line = strip line0;
          items = split_on CHR '' '' line
      in if length items < 2 then Inl IndexError
         else case py_float env (items ! 1) of
           Inl e \<Rightarrow> Inl e
         | Inr scale \<Rightarrow>
             if length items < 3 then Inl IndexError
             else case py_int env (items ! 2) of
               Inl e \<Rightarrow> Inl e
             | Inr zero_point \<Rightarrow>
                 if length items < 4 then Inl IndexError
                 else case float_list (py_float env) (split_on CHR '','' (items ! 3)) of
                   Inl e \<Rightarrow> Inl e
                 | Inr values \<Rightarrow> Inr (items ! 0, (scale, zero_point, values)))"

fun calibrate_lines ::
  "('m, 'f, 'p, 'r, 't) webui \<Rightarrow> string list \<Rightarrow> 'f calibrate_info \<Rightarrow> error + 'f calibrate_info" where
  "calibrate_lines env [] calibrate_info = Inr calibrate_info"
| "calibrate_lines env (line # rest) calibrate_info =
     (case calibrate_entry env line of
        Inl e \<Rightarrow> Inl e
      | Inr (name, entry) \<Rightarrow> calibrate_lines env rest (calibrate_info(name \<mapsto> entry)))"

definition get_calibrate_info ::
  "('m, 'f, 'p, 'r, 't) webui \<Rightarrow> string \<Rightarrow> 'm world \<Rightarrow>
     (error + 'f calibrate_info option) \<times> 'm world" where
  "get_calibrate_info env filename s =
     (case select_checkpoint env of
        Inl e \<Rightarrow> (Inl e, s)
      | Inr ckpt_filename \<Rightarrow>
          (let calibration_path = joinpath (parent ckpt_filename) filename
           in case fs env calibration_path of
                None \<Rightarrow> (Inr None, s)
              | Some entry \<Rightarrow>
                  (let s1 = s\<lparr>events := events s @ [InfoGotCalibrateInfo]\<rparr>
                   in case entry of
                        Directory \<Rightarrow> (Inl IsADirectoryError, s1)
                      | RegularFile content \<Rightarrow>
                          (case calibrate_lines env (readlines content) Map.empty of
                             Inl e \<Rightarrow> (Inl e, s1)
                           | Inr calibrate_info \<Rightarrow> (Inr (Some calibrate_info), s1)))))"

section \<open>\<open>compile_unet\<close>\<close>

text \<open>
  The case distinction on the class of the module; its value is the local variable
  \<open>compiled_unet\<close> of the function. \<open>None\<close> is an instance of neither class.
\<close>

definition compile_step ::
  "('m, 'f, 'p, 'r, 't) webui \<Rightarrow> 'm pyobj \<Rightarrow> compile_args \<Rightarrow> 'm world \<Rightarrow>
     (error + 'm pyobj) \<times> 'm world" where
  "compile_step env unet_model args s =
     (case unet_model of
        Obj m \<Rightarrow>
          if isinstance_ldm env m then (compile_ldm_unet env m args, s)
          else if isinstance_sgm env m then (compile_sgm_unet env m args, s)
          else (Inr unet_model, s\<lparr>events := events s @ [WarnUnsupportedModelType]\<rparr>)
      | PyNone \<Rightarrow> (Inr unet_model, s\<lparr>events := events s @ [WarnUnsupportedModelType]\<rparr>))"

text \<open>
  The body of \<open>if quantization:\<close>. The name of the calibration file is built from the
  stem of the checkpoint's file name before \<open>get_calibrate_info\<close> is called.
\<close>

definition quantize_step ::
  "('m, 'f, 'p, 'r, 't) webui \<Rightarrow> 'm pyobj \<Rightarrow> 'm world \<Rightarrow> (error + 'm pyobj) \<times> 'm world" where
  "quantize_step env compiled s =
     (case select_checkpoint env of
        Inl e \<Rightarrow> (Inl e, s)
      | Inr ckpt_filename \<Rightarrow>
          (case get_calibrate_info env (stem ckpt_filename @ ''_sd_calibrate_info.txt'') s of
             (Inl e, s1) \<Rightarrow> (Inl e, s1)
           | (Inr calibrate_info, s1) \<Rightarrow> (quantize_model env compiled calibrate_info, s1)))"

definition compile_unet ::
  "('m, 'f, 'p, 'r, 't) webui \<Rightarrow> 'm pyobj \<Rightarrow> bool \<Rightarrow> compile_args \<Rightarrow> 'm world \<Rightarrow>
     (error + 'm pyobj) \<times> 'm world" where
  "compile_unet env unet_model quantization args s =
     (case compile_step env unet_model args s of
        (Inl e, s1) \<Rightarrow> (Inl e, s1)
      | (Inr compiled, s1) \<Rightarrow>
          if quantization then quantize_step env compiled s1 else (Inr compiled, s1))"

section \<open>The scoped substitution: \<open>UnetCompileCtx\<close> and the \<open>with\<close> statement\<close>

text \<open>
  \<open>__enter__\<close> saves the shared diffusion model and then reads the global
  \<open>compiled_unet\<close>, which raises \<open>NameError\<close> when the name has been deleted; in that
  case nothing has been assigned to the shared model. \<open>__exit__\<close> puts the saved model
  back and returns \<open>False\<close>.
\<close>

definition UnetCompileCtx :: "('m world, 'm pyobj) context_manager" where
  "UnetCompileCtx =
     \<lparr>cm_enter = (\<lambda>s. case compiled_unet s of
                         Deleted \<Rightarrow> (Inl (NameError ''compiled_unet''), s)
                       | Bound unet \<Rightarrow> (Inr (diffusion_model s), s\<lparr>diffusion_model := unet\<rparr>)),
      cm_exit = (\<lambda>original_model exc s. (Inr False, s\<lparr>diffusion_model := original_model\<rparr>))\<rparr>"

text \<open>
  One item of a \<open>with\<close> statement around a body. The body yields \<open>Some v\<close> when it has
  run to its end with value \<open>v\<close>, and \<open>None\<close> when an inner manager has swallowed an
  exception, so that the statement completes without the body having finished.
\<close>

definition with_stmt ::
  "('s, 't) context_manager \<Rightarrow> ('s \<Rightarrow> (error + 'a option) \<times> 's) \<Rightarrow> 's \<Rightarrow>
     (error + 'a option) \<times> 's" where
  "with_stmt cm body s =
     (case cm_enter cm s of
        (Inl e, s1) \<Rightarrow> (Inl e, s1)
      | (Inr tok, s1) \<Rightarrow>
          (case body s1 of
             (Inr v, s2) \<Rightarrow>
               (case cm_exit cm tok None s2 of
                  (Inl e', s3) \<Rightarrow> (Inl e', s3)
                | (Inr _, s3) \<Rightarrow> (Inr v, s3))
           | (Inl e, s2) \<Rightarrow>
               (case cm_exit cm tok (Some e) s2 of
                  (Inl e', s3) \<Rightarrow> (Inl e', s3)
                | (Inr swallow, s3) \<Rightarrow> if swallow then (Inr None, s3) else (Inl e, s3))))"

section \<open>\<open>Script.run\<close>\<close>

definition ckpt_name :: "bool \<Rightarrow> string \<Rightarrow> string" where
  "ckpt_name quantization current_checkpoint =
     (if quantization then current_checkpoint @ ''_quantized'' else current_checkpoint)"

text \<open>
  The test of the \<open>if\<close> statement. \<open>and\<close> binds tighter than \<open>or\<close>, and \<open>or\<close> evaluates
  \<open>self.need_compile(shared.sd_model)\<close> only when its left operand is false.
\<close>

definition run_condition ::
  "('m, 'f, 'p, 'r, 't) webui \<Rightarrow> bool \<Rightarrow> 'm world \<Rightarrow> bool \<times> 'm world" where
  "run_condition env quantization s =
     (if quantization \<and>
         Some (ckpt_name quantization (sd_model_checkpoint s)) \<noteq> compiled_ckpt_name s
      then (True, s)
      else need_compile (mlir_opt env) (sd_model s) s)"

text \<open>
  The branch that compiles: \<open>del compiled_unet\<close> (a \<open>NameError\<close> when the name is
  already gone), \<open>torch_gc\<close>, \<open>compile_unet\<close> with \<open>use_graph\<close> at its default and the
  empty \<open>compile_options\<close>, then the two assignments and \<open>torch_gc\<close> again. When
  \<open>compile_unet\<close> raises, the global stays deleted.
\<close>

definition run_compile ::
  "('m, 'f, 'p, 'r, 't) webui \<Rightarrow> 'm pyobj \<Rightarrow> bool \<Rightarrow> 'm world \<Rightarrow> (error + unit) \<times> 'm world" where
  "run_compile env original_diffusion_model quantization s =
     (case compiled_unet s of
        Deleted \<Rightarrow> (Inl (NameError ''compiled_unet''), s)
      | Bound _ \<Rightarrow>
          (let s1 = s\<lparr>compiled_unet := Deleted, events := events s @ [TorchGc, CompileUnetCall]\<rparr>
           in case compile_unet env original_diffusion_model quantization
                     \<lparr>use_graph = True, options = []\<rparr> s1 of
                (Inl e, s2) \<Rightarrow> (Inl e, s2)
              | (Inr unet, s2) \<Rightarrow>
                  (Inr (),
                   s2\<lparr>compiled_unet := Bound unet,
                      compiled_ckpt_name :=
                        Some (ckpt_name quantization (sd_model_checkpoint s)),
                      events := events s2 @ [TorchGc]\<rparr>)))"

text \<open>Everything \<open>run\<close> does before the \<open>with\<close> statement.\<close>

definition run_prepare ::
  "('m, 'f, 'p, 'r, 't) webui \<Rightarrow> bool \<Rightarrow> 'm world \<Rightarrow> (error + unit) \<times> 'm world" where
  "run_prepare env quantization s =
     (let original_diffusion_model = diffusion_model s
      in case run_condition env quantization s of
           (True, s1) \<Rightarrow> run_compile env original_diffusion_model quantization s1
         | (False, s1) \<Rightarrow> (Inr (), s1\<lparr>events := events s1 @ [InfoSkipCompile]\<rparr>))"

text \<open>
  The statement \<open>with UnetCompileCtx(), VaeCompileCtx(), SD21CompileCtx(),
  HijackLoraActivate(): proc = process_images(p)\<close>: the managers are entered from left to
  right and left in the reverse order.
\<close>

definition run_body ::
  "('m, 'f, 'p, 'r, 't) webui \<Rightarrow> 'p \<Rightarrow> 'm world \<Rightarrow> (error + 'r option) \<times> 'm world" where
  "run_body env p s =
     (case process_images env p s of
        (Inl e, s') \<Rightarrow> (Inl e, s')
      | (Inr proc, s') \<Rightarrow> (Inr (Some proc), s'))"

definition run_inner ::
  "('m, 'f, 'p, 'r, 't) webui \<Rightarrow> 'p \<Rightarrow> 'm world \<Rightarrow> (error + 'r option) \<times> 'm world" where
  "run_inner env p =
     with_stmt (vae_ctx env) (with_stmt (sd21_ctx env) (with_stmt (lora_ctx env) (run_body env p)))"

definition run_with ::
  "('m, 'f, 'p, 'r, 't) webui \<Rightarrow> 'p \<Rightarrow> 'm world \<Rightarrow> (error + 'r option) \<times> 'm world" where
  "run_with env p = with_stmt UnetCompileCtx (run_inner env p)"

text \<open>\<open>return proc\<close> finds \<open>proc\<close> unbound when a manager has swallowed an exception.\<close>

definition run ::
  "('m, 'f, 'p, 'r, 't) webui \<Rightarrow> 'p \<Rightarrow> bool \<Rightarrow> 'm world \<Rightarrow> (error + 'r) \<times> 'm world" where
  "run env p quantization s =
     (case run_prepare env quantization s of
        (Inl e, s1) \<Rightarrow> (Inl e, s1)
      | (Inr _, s1) \<Rightarrow>
          (case run_with env p s1 of
             (Inl e, s2) \<Rightarrow> (Inl e, s2)
           | (Inr None, s2) \<Rightarrow> (Inl (UnboundLocalError ''proc''), s2)
           | (Inr (Some proc), s2) \<Rightarrow> (Inr proc, s2)))"

section \<open>The deployable module wrapper: \<open>OneflowDeployableModule\<close>\<close>

text \<open>
  Modelled from the spec: the dual module class returned by \<open>get_mixed_dual_module\<close> is
  not among the sources. It "holds references to both the original and (later) the
  compiled counterpart": reading its attribute \<open>oneflow_module\<close> yields the counterpart,
  producing it from the original module through the collaborator \<open>torch2oflow\<close> when
  there is none, and \<open>del\<close> on the attribute discards the counterpart.
\<close>

record ('tm, 'o) dual_module =
  torch_module :: 'tm
  oneflow_module :: "'o option"

text \<open>
  The fields of the wrapper that the methods below read or write, with the fields of its
  \<open>OneflowCompileOptions\<close> inlined (\<open>opt_\<close>). \<open>builds\<close> counts the graph handles
  obtained from \<open>get_oneflow_graph\<close>; the code has no such counter, it is the
  observation behind "additional compilations".
\<close>

record ('g, 'tm, 'o) deployable_module =
  dpl_model :: "('tm, 'o) dual_module"
  dpl_graph :: "'g option"
  load_graph_first_run :: bool
  enable_dynamic :: bool
  opt_use_graph :: bool
  opt_graph_file :: "string option"
  opt_max_cached_graph_size :: nat
  opt_debug_level :: int
  builds :: nat

text \<open>
  A function on the wrapper takes its arguments and the wrapper and yields a result or an
  exception together with the wrapper as the call leaves it. The four decorators stacked
  on \<open>forward\<close> are defined outside the sources at hand; each maps such a function
  to such a function and a parameter of the model.
\<close>

type_synonym ('g, 'tm, 'o, 'a, 'b) wrapper_fn =
  "'a \<Rightarrow> ('g, 'tm, 'o) deployable_module \<Rightarrow> (error + 'b) \<times> ('g, 'tm, 'o) deployable_module"

record ('g, 'tm, 'o, 'a, 'b) decorators =
  quantize_and_deploy_wrapper :: "('g, 'tm, 'o, 'a, 'b) wrapper_fn \<Rightarrow> ('g, 'tm, 'o, 'a, 'b) wrapper_fn"
  input_output_processor :: "('g, 'tm, 'o, 'a, 'b) wrapper_fn \<Rightarrow> ('g, 'tm, 'o, 'a, 'b) wrapper_fn"
  handle_deployable_exception :: "('g, 'tm, 'o, 'a, 'b) wrapper_fn \<Rightarrow> ('g, 'tm, 'o, 'a, 'b) wrapper_fn"
  graph_file_management :: "('g, 'tm, 'o, 'a, 'b) wrapper_fn \<Rightarrow> ('g, 'tm, 'o, 'a, 'b) wrapper_fn"

text \<open>
  The collaborators of the wrapper: the conversion of the original module, the graph
  constructor \<open>get_oneflow_graph\<close>, \<open>debug\<close> on a graph, \<open>transform_mgr.debug_mode\<close>,
  the call of a graph and of the converted module, \<open>len(graph._blocks)\<close>, the devices
  of the tensors yielded by \<open>graph._state()\<close>, \<open>to\<close> on the dual module, and the two
  helpers \<open>parse_device\<close> and \<open>check_device\<close>, which are defined outside the sources at
  hand: the first extracts the target device from the arguments of a call of \<open>to\<close>
  (\<open>None\<close> when they name no device), the second tells whether two devices are the
  same. \<open>'q\<close> is the type of the arguments of \<open>to\<close>, \<open>'d\<close> the type of devices.
\<close>

record ('g, 'tm, 'o, 'a, 'b, 'q, 'd) oneflow =
  torch2oflow :: "'tm \<Rightarrow> error + 'o"
  get_oneflow_graph :: "'o \<Rightarrow> nat \<Rightarrow> bool \<Rightarrow> error + 'g"
  graph_debug :: "'g \<Rightarrow> int \<Rightarrow> error + unit"
  debug_mode :: bool
  graph_call :: "'g \<Rightarrow> 'a \<Rightarrow> error + 'b"
  oneflow_call :: "'o \<Rightarrow> 'a \<Rightarrow> error + 'b"
  graph_blocks :: "'g \<Rightarrow> nat"
  graph_state_devices :: "'g \<Rightarrow> 'd list"
  dual_to :: "'q \<Rightarrow> ('tm, 'o) dual_module \<Rightarrow> error + ('tm, 'o) dual_module"
  parse_device :: "'q \<Rightarrow> 'd option"
  check_device :: "'d \<Rightarrow> 'd \<Rightarrow> bool"

text \<open>Reading \<open>self._deployable_module_model.oneflow_module\<close>.\<close>

definition read_oneflow_module ::
  "('g, 'tm, 'o, 'a, 'b, 'q, 'd) oneflow \<Rightarrow> ('g, 'tm, 'o) deployable_module \<Rightarrow>
     (error + 'o) \<times> ('g, 'tm, 'o) deployable_module" where
  "read_oneflow_module env w =
     (case oneflow_module (dpl_model w) of
        Some om \<Rightarrow> (Inr om, w)
      | None \<Rightarrow>
          (case torch2oflow env (torch_module (dpl_model w)) of
             Inl e \<Rightarrow> (Inl e, w)
           | Inr om \<Rightarrow> (Inr om, w\<lparr>dpl_model := (dpl_model w)\<lparr>oneflow_module := Some om\<rparr>\<rparr>)))"

definition get_graph ::
  "('g, 'tm, 'o, 'a, 'b, 'q, 'd) oneflow \<Rightarrow> ('g, 'tm, 'o) deployable_module \<Rightarrow>
     (error + 'g) \<times> ('g, 'tm, 'o) deployable_module" where
  "get_graph env w =
     (case dpl_graph w of
        Some g \<Rightarrow> (Inr g, w)
      | None \<Rightarrow>
          (case read_oneflow_module env w of
             (Inl e, w1) \<Rightarrow> (Inl e, w1)
           | (Inr om, w1) \<Rightarrow>
               (case get_oneflow_graph env om (opt_max_cached_graph_size w1) (enable_dynamic w1) of
                  Inl e \<Rightarrow> (Inl e, w1)
                | Inr g \<Rightarrow>
                    (let w2 = w1\<lparr>dpl_graph := Some g, builds := Suc (builds w1)\<rparr>
                     in case (if debug_mode env then graph_debug env g 0 else Inr ()) of
                          Inl e \<Rightarrow> (Inl e, w2)
                        | Inr _ \<Rightarrow>
                            (case (if opt_debug_level w2 > 0
                                   then graph_debug env g (opt_debug_level w2) else Inr ()) of
                               Inl e \<Rightarrow> (Inl e, w2)
                             | Inr _ \<Rightarrow> (Inr g, w2))))))"

text \<open>
  The body of \<open>forward\<close>, the function the decorators receive. \<open>oneflow_exec_mode\<close>
  only scopes a mode of the backend.
\<close>

definition forward_body ::
  "('g, 'tm, 'o, 'a, 'b, 'q, 'd) oneflow \<Rightarrow> ('g, 'tm, 'o, 'a, 'b) wrapper_fn" where
  "forward_body env args w =
     (if opt_use_graph w then
        (case get_graph env w of
           (Inl e, w1) \<Rightarrow> (Inl e, w1)
         | (Inr g, w1) \<Rightarrow> (graph_call env g args, w1))
      else
        (case read_oneflow_module env w of
           (Inl e, w1) \<Rightarrow> (Inl e, w1)
         | (Inr om, w1) \<Rightarrow> (oneflow_call env om args, w1)))"

text \<open>
  The function \<open>forward\<close> as the class has it: the body under its four decorators, applied
  from the innermost, \<open>graph_file_management\<close>, to the outermost,
  \<open>quantize_and_deploy_wrapper\<close>.
\<close>

definition forward ::
  "('g, 'tm, 'o, 'a, 'b) decorators \<Rightarrow> ('g, 'tm, 'o, 'a, 'b, 'q, 'd) oneflow \<Rightarrow>
     ('g, 'tm, 'o, 'a, 'b) wrapper_fn" where
  "forward decs env =
     quantize_and_deploy_wrapper decs
       (input_output_processor decs
          (handle_deployable_exception decs
             (graph_file_management decs (forward_body env))))"

text \<open>
  \<open>to\<close> returns \<open>self\<close>: the result \<open>Inr ()\<close> stands for the wrapper in its new state.
  \<open>next(graph._state())\<close> raises \<open>StopIteration\<close> when the graph has no state tensor.
\<close>

definition delegate_to ::
  "('g, 'tm, 'o, 'a, 'b, 'q, 'd) oneflow \<Rightarrow> 'q \<Rightarrow> ('g, 'tm, 'o) deployable_module \<Rightarrow>
     (error + unit) \<times> ('g, 'tm, 'o) deployable_module" where
  "delegate_to env args w =
     (case dual_to env args (dpl_model w) of
        Inl e \<Rightarrow> (Inl e, w)
      | Inr m \<Rightarrow> (Inr (), w\<lparr>dpl_model := m\<rparr>))"

definition to ::
  "('g, 'tm, 'o, 'a, 'b, 'q, 'd) oneflow \<Rightarrow> 'q \<Rightarrow> ('g, 'tm, 'o) deployable_module \<Rightarrow>
     (error + unit) \<times> ('g, 'tm, 'o) deployable_module" where
  "to env args w =
     (case dpl_graph w of
        None \<Rightarrow> delegate_to env args w
      | Some g \<Rightarrow>
          (case parse_device env args of
             None \<Rightarrow> delegate_to env args w
           | Some target_device \<Rightarrow>
               if graph_blocks env g > 0 then
                 (case graph_state_devices env g of
                    [] \<Rightarrow> (Inl StopIteration, w)
                  | current_device # _ \<Rightarrow>
                      if \<not> check_device env current_device target_device
                      then (Inl (RuntimeError
                        ''After graph built, the device of graph can't be modified''), w)
                      else delegate_to env args w)
               else delegate_to env args w))"

definition get_graph_file :: "('g, 'tm, 'o) deployable_module \<Rightarrow> string option" where
  "get_graph_file w = opt_graph_file w"

definition clear_old_graph ::
  "('g, 'tm, 'o) deployable_module \<Rightarrow> ('g, 'tm, 'o) deployable_module" where
  "clear_old_graph w =
     w\<lparr>load_graph_first_run := True,
       dpl_graph := None,
       dpl_model := (dpl_model w)\<lparr>oneflow_module := None\<rparr>\<rparr>"

text \<open>
  The argument is a Python string or \<open>None\<close>; it is truthy when it is a string that is
  not empty.
\<close>

definition truthy :: "string option \<Rightarrow> bool" where
  "truthy file_path \<longleftrightarrow> (case file_path of None \<Rightarrow> False | Some p \<Rightarrow> p \<noteq> [])"

definition set_graph_file ::
  "string option \<Rightarrow> ('g, 'tm, 'o) deployable_module \<Rightarrow> ('g, 'tm, 'o) deployable_module" where
  "set_graph_file file_path w =
     (let old_file_path = get_graph_file w
      in if truthy file_path \<and> old_file_path = file_path then w
         else clear_old_graph (w\<lparr>opt_graph_file := file_path\<rparr>))"

section \<open>The tensor bridge of \<open>oneflow_backend\<close>\<close>

text \<open>
  Python values crossing the bridge: tensors of the host (\<open>torch.Tensor\<close>) and of the
  backend, other leaves, and lists, tuples and dicts of values.
\<close>

datatype ('h, 'b, 'c) pyval =
    HostTensor 'h
  | BackendTensor 'b
  | Scalar 'c
  | PyList "('h, 'b, 'c) pyval list"
  | PyTuple "('h, 'b, 'c) pyval list"
  | PyDict "(string \<times> ('h, 'b, 'c) pyval) list"

text \<open>
  The tensor runtime: \<open>Tensor.contiguous\<close>, \<open>flow.utils.tensor.from_torch\<close> and
  \<open>flow.utils.tensor.to_torch\<close>. The code hands \<open>to_torch\<close> whatever the graph returned,
  so it is a function on all values. \<open>transformed_fn\<close> and \<open>interpreter_run\<close> are the two
  ways of running the graph module on positional and keyword arguments.
\<close>

record ('h, 'b, 'c) tensor_runtime =
  contiguous :: "'h \<Rightarrow> 'h"
  from_torch :: "'h \<Rightarrow> 'b"
  to_torch :: "('h, 'b, 'c) pyval \<Rightarrow> error + ('h, 'b, 'c) pyval"
  transformed_fn :: "('h, 'b, 'c) pyval list \<Rightarrow> (string \<times> ('h, 'b, 'c) pyval) list \<Rightarrow>
                       error + ('h, 'b, 'c) pyval"
  interpreter_run :: "('h, 'b, 'c) pyval list \<Rightarrow> (string \<times> ('h, 'b, 'c) pyval) list \<Rightarrow>
                        error + ('h, 'b, 'c) pyval"

definition input_fn :: "('h, 'b, 'c) tensor_runtime \<Rightarrow> ('h, 'b, 'c) pyval \<Rightarrow> ('h, 'b, 'c) pyval" where
  "input_fn rt v =
     (case v of HostTensor t \<Rightarrow> BackendTensor (from_torch rt (contiguous rt t)) | _ \<Rightarrow> v)"

text \<open>
  \<open>ArgsTree.map_leaf\<close> of oneflow: the function is applied to every leaf and the nesting
  of lists, tuples and dicts is rebuilt around the results.
\<close>

primrec map_leaf ::
  "(('h, 'b, 'c) pyval \<Rightarrow> ('h, 'b, 'c) pyval) \<Rightarrow> ('h, 'b, 'c) pyval \<Rightarrow> ('h, 'b, 'c) pyval" where
  "map_leaf f (HostTensor t) = f (HostTensor t)"
| "map_leaf f (BackendTensor t) = f (BackendTensor t)"
| "map_leaf f (Scalar x) = f (Scalar x)"
| "map_leaf f (PyList xs) = PyList (map (map_leaf f) xs)"
| "map_leaf f (PyTuple xs) = PyTuple (map (map_leaf f) xs)"
| "map_leaf f (PyDict kvs) = PyDict (map (map_prod id (map_leaf f)) kvs)"

text \<open>The conversion on the way in: \<open>args_tree.map_leaf(input_fn)\<close>.\<close>

definition to_backend :: "('h, 'b, 'c) tensor_runtime \<Rightarrow> ('h, 'b, 'c) pyval \<Rightarrow> ('h, 'b, 'c) pyval" where
  "to_backend rt v = map_leaf (input_fn rt) v"

text \<open>The generator \<open>tuple(to_torch(i) for i in output)\<close>: the first exception ends it.\<close>

fun to_torch_each ::
  "('h, 'b, 'c) tensor_runtime \<Rightarrow> ('h, 'b, 'c) pyval list \<Rightarrow> error + ('h, 'b, 'c) pyval list" where
  "to_torch_each rt [] = Inr []"
| "to_torch_each rt (i # output) =
     (case to_torch rt i of
        Inl e \<Rightarrow> Inl e
      | Inr v \<Rightarrow> (case to_torch_each rt output of Inl e \<Rightarrow> Inl e | Inr vs \<Rightarrow> Inr (v # vs)))"

text \<open>The conversion on the way out: the last three lines of \<open>wrapped_forward\<close>.\<close>

definition to_host ::
  "('h, 'b, 'c) tensor_runtime \<Rightarrow> ('h, 'b, 'c) pyval \<Rightarrow> error + ('h, 'b, 'c) pyval" where
  "to_host rt output =
     (case output of
        PyTuple xs \<Rightarrow> (case to_torch_each rt xs of Inl e \<Rightarrow> Inl e | Inr vs \<Rightarrow> Inr (PyTuple vs))
      | _ \<Rightarrow> to_torch rt output)"

text \<open>
  \<open>wrapped_forward\<close> on positional and keyword arguments: the tree is built over the
  pair of both, but only \<open>out[0]\<close> replaces \<open>args\<close>; the keyword arguments are passed on
  as they came.
\<close>

definition wrapped_forward ::
  "('h, 'b, 'c) tensor_runtime \<Rightarrow> bool \<Rightarrow> ('h, 'b, 'c) pyval list \<Rightarrow>
     (string \<times> ('h, 'b, 'c) pyval) list \<Rightarrow> error + ('h, 'b, 'c) pyval" where
  "wrapped_forward rt with_interp args kwargs =
     (case to_backend rt (PyTuple [PyTuple args, PyDict kwargs]) of
        PyTuple (PyTuple args' # _) \<Rightarrow>
          (case (if with_interp then interpreter_run rt args' kwargs
                 else transformed_fn rt args' kwargs) of
             Inl e \<Rightarrow> Inl e
           | Inr output \<Rightarrow> to_host rt output)
      | _ \<Rightarrow> Inl IndexError)"

section \<open>Observations and concrete instances used in the statements\<close>

text \<open>Whether \<open>compile_unet\<close> has been entered between the states \<open>s\<close> and \<open>s'\<close>.\<close>

definition recompiled :: "'m world \<Rightarrow> 'm world \<Rightarrow> bool" where
  "recompiled s s' \<longleftrightarrow> CompileUnetCall \<in> set (drop (length (events s)) (events s'))"

text \<open>
  A context manager lets exceptions pass when its \<open>__enter__\<close> returns without touching
  the shared diffusion model and its \<open>__exit__\<close> returns \<open>False\<close>. \<open>entered\<close> is the
  state in which the body then starts.
\<close>

definition lets_exceptions_pass :: "('m world, 't) context_manager \<Rightarrow> bool" where
  "lets_exceptions_pass cm \<longleftrightarrow>
     (\<forall>s. \<exists>tok s1. cm_enter cm s = (Inr tok, s1) \<and> diffusion_model s1 = diffusion_model s) \<and>
     (\<forall>tok exc s. \<exists>s1. cm_exit cm tok exc s = (Inr False, s1))"

definition entered :: "('s, 't) context_manager \<Rightarrow> 's \<Rightarrow> 's" where
  "entered cm s = snd (cm_enter cm s)"

subsection \<open>The format of the calibration file, as the specification words it\<close>

text \<open>
  One line per entry, \<open><name> <scale> <zero_point> <comma-separated-floats>\<close>: the four
  fields joined by single spaces, the floats joined by commas, every line ended by a
  line feed. A field is a word: not empty, without whitespace and without comma. The
  entry expected for a line is \<open>name -> [float(scale), int(zero_point), [float(x), ...]]\<close>.
\<close>

fun join_with :: "char \<Rightarrow> string list \<Rightarrow> string" where
  "join_with sep [] = []"
| "join_with sep [x] = x"
| "join_with sep (x # y # ys) = x @ sep # join_with sep (y # ys)"

definition calibration_line :: "string \<times> string \<times> string \<times> string list \<Rightarrow> string" where
  "calibration_line r =
     (case r of (name, scale, zero_point, floats) \<Rightarrow>
        join_with CHR '' '' [name, scale, zero_point, join_with CHR '','' floats])"

definition calibration_file :: "(string \<times> string \<times> string \<times> string list) list \<Rightarrow> string" where
  "calibration_file rs = concat (map (\<lambda>r. calibration_line r @ [CHR 0x0A]) rs)"

definition word :: "string \<Rightarrow> bool" where
  "word w \<longleftrightarrow> w \<noteq> [] \<and> (\<forall>c \<in> set w. \<not> is_space c \<and> c \<noteq> CHR '','')"

definition well_formed :: "string \<times> string \<times> string \<times> string list \<Rightarrow> bool" where
  "well_formed r \<longleftrightarrow>
     (case r of (name, scale, zero_point, floats) \<Rightarrow>
        word name \<and> word scale \<and> word zero_point \<and> floats \<noteq> [] \<and> (\<forall>f \<in> set floats. word f))"

definition expected_entry ::
  "('m, 'f, 'p, 'r, 't) webui \<Rightarrow> string \<times> string \<times> string \<times> string list \<Rightarrow>
     error + (string \<times> ('f \<times> int \<times> 'f list))" where
  "expected_entry env r =
     (case r of (name, scale, zero_point, floats) \<Rightarrow>
        (case py_float env scale of
           Inl e \<Rightarrow> Inl e
         | Inr sc \<Rightarrow>
             (case py_int env zero_point of
                Inl e \<Rightarrow> Inl e
              | Inr zp \<Rightarrow>
                  (case float_list (py_float env) floats of
                     Inl e \<Rightarrow> Inl e
                   | Inr vs \<Rightarrow> Inr (name, (sc, zp, vs))))))"

subsection \<open>A decimal reading of numerals, for the examples\<close>

text \<open>
  The examples need some \<open>float\<close> and \<open>int\<close>. These two read plain decimal numerals,
  the floats as rationals, which is exact for the values of the examples
  (\<open>0.5\<close>, \<open>1.0\<close>, \<open>2.0\<close>, \<open>3.0\<close>).
\<close>

definition digit_val :: "char \<Rightarrow> nat option" where
  "digit_val c =
     (let n = (of_char c :: nat) in if 48 \<le> n \<and> n \<le> 57 then Some (n - 48) else None)"

fun digits_val :: "nat \<Rightarrow> string \<Rightarrow> nat option" where
  "digits_val acc [] = Some acc"
| "digits_val acc (c # cs) =
     (case digit_val c of None \<Rightarrow> None | Some d \<Rightarrow> digits_val (10 * acc + d) cs)"

definition decimal_int :: "string \<Rightarrow> error + int" where
  "decimal_int s =
     (case s of
        [] \<Rightarrow> Inl ValueError
      | c # cs \<Rightarrow>
          if c = CHR ''-'' then
            (case (cs, digits_val 0 cs) of
               (_ # _, Some n) \<Rightarrow> Inr (- int n)
             | _ \<Rightarrow> Inl ValueError)
          else (case digits_val 0 s of Some n \<Rightarrow> Inr (int n) | None \<Rightarrow> Inl ValueError))"

definition decimal_float :: "string \<Rightarrow> error + rat" where
  "decimal_float s =
     (case split_on CHR ''.'' s of
        [ip, fp] \<Rightarrow>
          (case (ip, fp, digits_val 0 ip, digits_val 0 fp) of
             (_ # _, _ # _, Some a, Some b) \<Rightarrow> Inr (of_nat a + of_nat b / 10 ^ length fp)
           | _ \<Rightarrow> Inl ValueError)
      | _ \<Rightarrow> Inl ValueError)"

subsection \<open>Concrete models, collaborators and states\<close>

definition sdxl_model :: sd_model where
  "sdxl_model = [''is_sdxl'' \<mapsto> True, ''is_sd2'' \<mapsto> False]"

definition sd2_model :: sd_model where
  "sd2_model = [''is_sdxl'' \<mapsto> False, ''is_sd2'' \<mapsto> True]"

definition fresh_world :: "string \<Rightarrow> sd_model \<Rightarrow> 'm pyobj \<Rightarrow> 'm world" where
  "fresh_world ckpt model unet =
     \<lparr>compiled_unet = Bound PyNone, compiled_ckpt_name = None, current_type = None,
      sd_model_checkpoint = ckpt, sd_model = model, diffusion_model = unet, events = []\<rparr>"

definition stored_sdxl :: "'m world" where
  "stored_sdxl = (fresh_world ''sdxl_base'' sdxl_model PyNone)
                   \<lparr>current_type := Some (get_model_type sdxl_model)\<rparr>"

definition plain_ctx :: "('s, unit) context_manager" where
  "plain_ctx = \<lparr>cm_enter = (\<lambda>s. (Inr (), s)), cm_exit = (\<lambda>tok exc s. (Inr False, s))\<rparr>"

text \<open>
  A file system with one calibration file next to the checkpoint \<open>conv.safetensors\<close> and
  none next to \<open>plain.safetensors\<close>.
\<close>

definition demo_fs :: "path \<rightharpoonup> fs_entry" where
  "demo_fs =
     [[''models'', ''conv_sd_calibrate_info.txt''] \<mapsto>
        RegularFile (''conv1 0.5 3 1.0,2.0,3.0'' @ [CHR 0x0A])]"

text \<open>
  Modules are numbers: below 100 LDM UNets, from 100 below 200 SGM UNets, anything else
  of an unsupported class. Compiling adds 1000 or 2000, quantizing adds 10000 without
  and 20000 with calibration info. \<open>process_images\<close> overwrites the shared diffusion
  model and raises on the request 0.
\<close>

definition demo_webui :: "path \<Rightarrow> (nat, rat, nat, nat, unit) webui" where
  "demo_webui ckpt_file =
     \<lparr>select_checkpoint = Inr ckpt_file,
      fs = demo_fs,
      py_float = decimal_float,
      py_int = decimal_int,
      isinstance_ldm = (\<lambda>m. m < 100),
      isinstance_sgm = (\<lambda>m. 100 \<le> m \<and> m < 200),
      compile_ldm_unet = (\<lambda>m args. Inr (Obj (m + 1000))),
      compile_sgm_unet = (\<lambda>m args. Inr (Obj (m + 2000))),
      quantize_model = (\<lambda>unet info. case unet of
                          PyNone \<Rightarrow> Inl (External ''quantize_model'')
                        | Obj m \<Rightarrow> (case info of
                                      None \<Rightarrow> Inr (Obj (m + 10000))
                                    | Some _ \<Rightarrow> Inr (Obj (m + 20000)))),
      mlir_opt = False,
      process_images = (\<lambda>p s. (if p = 0 then Inl (External ''process_images'') else Inr p,
                                s\<lparr>diffusion_model := PyNone\<rparr>)),
      vae_ctx = plain_ctx,
      sd21_ctx = plain_ctx,
      lora_ctx = plain_ctx\<rparr>"

definition conv_ckpt :: path where
  "conv_ckpt = [''models'', ''conv.safetensors'']"

definition plain_ckpt :: path where
  "plain_ckpt = [''models'', ''plain.safetensors'']"

text \<open>
  The state the first request leaves behind: checkpoint \<open>a\<close> without quantization on
  an SDXL model whose UNet is the module 1.
\<close>

definition compiled_world :: "nat world" where
  "compiled_world =
     \<lparr>compiled_unet = Bound (Obj 1001), compiled_ckpt_name = Some ''a'',
      current_type = Some (get_model_type sdxl_model),
      sd_model_checkpoint = ''a'', sd_model = sdxl_model, diffusion_model = Obj 1,
      events = [TorchGc, CompileUnetCall, TorchGc]\<rparr>"

definition unit_args :: compile_args where
  "unit_args = \<lparr>use_graph = True, options = []\<rparr>"

text \<open>
  A backend on numbers: converting a module adds 1, the graph of a module is the module
  plus 100, every graph has three blocks and its state on \<open>cuda:0\<close>. The arguments of
  \<open>to\<close> are the device they name, and two devices are the same when they are equal.
\<close>

definition demo_oneflow :: "(nat, nat, nat, nat, nat, string option, string) oneflow" where
  "demo_oneflow =
     \<lparr>torch2oflow = (\<lambda>tm. Inr (tm + 1)),
      get_oneflow_graph = (\<lambda>om size dynamic. Inr (om + 100)),
      graph_debug = (\<lambda>g level. Inr ()),
      debug_mode = False,
      graph_call = (\<lambda>g a. Inr (g + a)),
      oneflow_call = (\<lambda>om a. Inr (om + a)),
      graph_blocks = (\<lambda>g. 3),
      graph_state_devices = (\<lambda>g. [''cuda:0'']),
      dual_to = (\<lambda>args m. Inr m),
      parse_device = (\<lambda>args. args),
      check_device = (\<lambda>current_device target_device. current_device = target_device)\<rparr>"

text \<open>
  A wrapper as \<open>__init__\<close> leaves it, and the same wrapper after \<open>set_graph_file("")\<close>
  and one call of \<open>forward\<close>.
\<close>

definition fresh_module :: "(nat, nat, nat) deployable_module" where
  "fresh_module =
     \<lparr>dpl_model = \<lparr>torch_module = 7, oneflow_module = None\<rparr>,
      dpl_graph = None, load_graph_first_run = True, enable_dynamic = True,
      opt_use_graph = True, opt_graph_file = None, opt_max_cached_graph_size = 9,
      opt_debug_level = - 1, builds = 0\<rparr>"

definition built_module :: "(nat, nat, nat) deployable_module" where
  "built_module =
     \<lparr>dpl_model = \<lparr>torch_module = 7, oneflow_module = Some 8\<rparr>,
      dpl_graph = Some 108, load_graph_first_run = True, enable_dynamic = True,
      opt_use_graph = True, opt_graph_file = Some [], opt_max_cached_graph_size = 9,
      opt_debug_level = - 1, builds = 1\<rparr>"


text \<open>Four decorators that do nothing.\<close>

definition plain_decorators :: "('g, 'tm, 'o, 'a, 'b) decorators" where
  "plain_decorators =
     \<lparr>quantize_and_deploy_wrapper = (\<lambda>f. f),
      input_output_processor = (\<lambda>f. f),
      handle_deployable_exception = (\<lambda>f. f),
      graph_file_management = (\<lambda>f. f)\<rparr>"




text \<open>
  A tensor runtime on numbers whose \<open>to_torch\<close> converts backend tensors and, like an
  assertion on the type of its argument, raises on every other value.
\<close>

definition strict_runtime :: "(nat, nat, int) tensor_runtime" where
  "strict_runtime =
     \<lparr>contiguous = (\<lambda>t. t),
      from_torch = (\<lambda>t. t),
      to_torch = (\<lambda>v. case v of
                        BackendTensor b \<Rightarrow> Inr (HostTensor b)
                      | _ \<Rightarrow> Inl AssertionError),
      transformed_fn = (\<lambda>args kwargs. Inr (PyTuple args)),
      interpreter_run = (\<lambda>args kwargs. Inr (PyTuple args))\<rparr>"

text \<open>
  The state in which \<open>process_images\<close> starts once the three inner managers have been
  entered, and the state a request finds when the host has selected a checkpoint, a
  model and its UNet since the request before.
\<close>

definition call_state :: "('m, 'f, 'p, 'r, 't) webui \<Rightarrow> 'm world \<Rightarrow> 'm world" where
  "call_state env s = entered (lora_ctx env) (entered (sd21_ctx env) (entered (vae_ctx env) s))"

definition next_request :: "string \<Rightarrow> sd_model \<Rightarrow> 'm pyobj \<Rightarrow> 'm world \<Rightarrow> 'm world" where
  "next_request ckpt model unet s =
     s\<lparr>sd_model_checkpoint := ckpt, sd_model := model, diffusion_model := unet\<rparr>"

section \<open>Properties of the recompile decision\<close>

lemma type_differs_get_model_type:
  "type_differs (get_model_type m0) model \<longleftrightarrow>
     (\<exists>key \<in> {''is_sdxl'', ''is_sd2'', ''is_sd1'', ''is_ssd''}.
        getattr m0 key False \<noteq> getattr model key False)"
  by (auto simp: get_model_type_def)

text \<open>
  Claim C2. \<open>need_compile(model)\<close> returns true exactly when no signature is stored
  yet (first run) or one of the four flags \<open>is_sdxl\<close>, \<open>is_sd2\<close>, \<open>is_sd1\<close>, \<open>is_ssd\<close> of
  the current model differs from the stored signature. When it returns true the stored
  signature becomes the signature of the current model; when it returns false the stored
  signature stays as it was. The stored signature is either absent or the signature
  \<open>get_model_type m0\<close> of an earlier model \<open>m0\<close>, the only values the code ever stores.
\<close>

theorem need_compile_iff_first_run_or_flag_differs:
  assumes "current_type s = None \<or> current_type s = Some (get_model_type m0)"
  shows "(fst (need_compile warn model s) \<longleftrightarrow>
            (current_type s = None \<or>
             (\<exists>key \<in> {''is_sdxl'', ''is_sd2'', ''is_sd1'', ''is_ssd''}.
                getattr m0 key False \<noteq> getattr model key False))) \<and>
         (fst (need_compile warn model s) \<longrightarrow>
            current_type (snd (need_compile warn model s)) = Some (get_model_type model)) \<and>
         (\<not> fst (need_compile warn model s) \<longrightarrow>
            current_type (snd (need_compile warn model s)) = current_type s)"
proof (intro conjI impI)
  show "fst (need_compile warn model s) \<longleftrightarrow>
           (current_type s = None \<or>
            (\<exists>key \<in> {''is_sdxl'', ''is_sd2'', ''is_sd1'', ''is_ssd''}.
               getattr m0 key False \<noteq> getattr model key False))"
    using assms type_differs_get_model_type [of m0 model]
    by (auto simp: need_compile_def Let_def)
next
  assume "fst (need_compile warn model s)"
  then show "current_type (snd (need_compile warn model s)) = Some (get_model_type model)"
    by (auto simp: need_compile_def Let_def split: if_splits option.splits)
next
  assume "\<not> fst (need_compile warn model s)"
  then show "current_type (snd (need_compile warn model s)) = current_type s"
    by (auto simp: need_compile_def Let_def split: if_splits option.splits)
qed

text \<open>
  The scenario of the specification: a stored signature of an SDXL model, then the same
  model again (no recompilation, signature kept) and an SD2 model (recompilation,
  signature replaced).
\<close>

theorem need_compile_iff_first_run_or_flag_differs_witness:
  "current_type (stored_sdxl :: nat world) = Some (get_model_type sdxl_model) \<and>
   \<not> fst (need_compile True sdxl_model (stored_sdxl :: nat world)) \<and>
   current_type (snd (need_compile True sdxl_model (stored_sdxl :: nat world))) =
     Some (get_model_type sdxl_model) \<and>
   fst (need_compile True sd2_model (stored_sdxl :: nat world)) \<and>
   current_type (snd (need_compile True sd2_model (stored_sdxl :: nat world))) =
     Some (get_model_type sd2_model)"
proof -
  have h: "current_type (stored_sdxl :: nat world) = None \<or>
           current_type (stored_sdxl :: nat world) = Some (get_model_type sdxl_model)"
    by (simp add: stored_sdxl_def)
  have same: "\<not> (\<exists>key \<in> {''is_sdxl'', ''is_sd2'', ''is_sd1'', ''is_ssd''}.
                 getattr sdxl_model key False \<noteq> getattr sdxl_model key False)"
    by simp
  have other: "\<exists>key \<in> {''is_sdxl'', ''is_sd2'', ''is_sd1'', ''is_ssd''}.
                 getattr sdxl_model key False \<noteq> getattr sd2_model key False"
    by (simp add: getattr_def sdxl_model_def sd2_model_def)
  have stored: "current_type (stored_sdxl :: nat world) = Some (get_model_type sdxl_model)"
    by (simp add: stored_sdxl_def)
  show ?thesis
    using need_compile_iff_first_run_or_flag_differs [OF h, of True sdxl_model]
      need_compile_iff_first_run_or_flag_differs [OF h, of True sd2_model]
      same other stored
    by simp
qed

section \<open>What the script leaves untouched\<close>

text \<open>
  \<open>get_calibrate_info\<close> and \<open>compile_unet\<close> change nothing but the trace of events, to
  which they only append.
\<close>

lemma get_calibrate_info_appends:
  "\<exists>evs. snd (get_calibrate_info env f s) = s\<lparr>events := events s @ evs\<rparr>"
proof (cases "select_checkpoint env")
  case (Inl e)
  then have "snd (get_calibrate_info env f s) = s\<lparr>events := events s @ []\<rparr>"
    by (simp add: get_calibrate_info_def)
  then show ?thesis by blast
next
  case (Inr ck)
  show ?thesis
  proof (cases "fs env (joinpath (parent ck) f)")
    case None
    with Inr have "snd (get_calibrate_info env f s) = s\<lparr>events := events s @ []\<rparr>"
      by (simp add: get_calibrate_info_def)
    then show ?thesis by blast
  next
    case (Some entry)
    with Inr have "snd (get_calibrate_info env f s) = s\<lparr>events := events s @ [InfoGotCalibrateInfo]\<rparr>"
      by (simp add: get_calibrate_info_def Let_def split: fs_entry.splits sum.splits)
    then show ?thesis by blast
  qed
qed

lemma compile_step_appends:
  "\<exists>evs. snd (compile_step env m a s) = s\<lparr>events := events s @ evs\<rparr>"
proof -
  have "snd (compile_step env m a s) = s\<lparr>events := events s @ []\<rparr> \<or>
        snd (compile_step env m a s) = s\<lparr>events := events s @ [WarnUnsupportedModelType]\<rparr>"
    by (simp add: compile_step_def split: pyobj.splits)
  then show ?thesis by blast
qed

lemma quantize_step_appends:
  "\<exists>evs. snd (quantize_step env c s) = s\<lparr>events := events s @ evs\<rparr>"
proof (cases "select_checkpoint env")
  case (Inl e)
  then have "snd (quantize_step env c s) = s\<lparr>events := events s @ []\<rparr>"
    by (simp add: quantize_step_def)
  then show ?thesis by blast
next
  case (Inr ck)
  obtain evs where "snd (get_calibrate_info env (stem ck @ ''_sd_calibrate_info.txt'') s)
                      = s\<lparr>events := events s @ evs\<rparr>"
    using get_calibrate_info_appends by blast
  with Inr have "snd (quantize_step env c s) = s\<lparr>events := events s @ evs\<rparr>"
    by (auto simp: quantize_step_def split: prod.splits sum.splits)
  then show ?thesis by blast
qed

lemma compile_unet_appends:
  "\<exists>evs. snd (compile_unet env m q a s) = s\<lparr>events := events s @ evs\<rparr>"
proof -
  obtain r1 s1 where c: "compile_step env m a s = (r1, s1)" by (cases "compile_step env m a s")
  obtain evs1 where e1: "s1 = s\<lparr>events := events s @ evs1\<rparr>"
    using compile_step_appends [of env m a s] c by auto
  show ?thesis
  proof (cases "q \<and> (\<exists>x. r1 = Inr x)")
    case True
    then obtain x where x: "r1 = Inr x" and q: q by blast
    obtain evs2 where "snd (quantize_step env x s1) = s1\<lparr>events := events s1 @ evs2\<rparr>"
      using quantize_step_appends by blast
    with c x q e1 have "snd (compile_unet env m q a s) = s\<lparr>events := events s @ (evs1 @ evs2)\<rparr>"
      by (simp add: compile_unet_def)
    then show ?thesis by blast
  next
    case False
    with c have "snd (compile_unet env m q a s) = s1"
      by (auto simp: compile_unet_def split: sum.splits)
    with e1 show ?thesis by blast
  qed
qed

lemma run_compile_recompiled:
  assumes "compiled_unet s = Bound u"
  shows "recompiled s (snd (run_compile env m q s))"
proof -
  let ?s1 = "s\<lparr>compiled_unet := Deleted, events := events s @ [TorchGc, CompileUnetCall]\<rparr>"
  obtain evs where e: "snd (compile_unet env m q \<lparr>use_graph = True, options = []\<rparr> ?s1)
                        = ?s1\<lparr>events := events ?s1 @ evs\<rparr>"
    using compile_unet_appends by blast
  obtain r s2 where c: "compile_unet env m q \<lparr>use_graph = True, options = []\<rparr> ?s1 = (r, s2)"
    by (cases "compile_unet env m q \<lparr>use_graph = True, options = []\<rparr> ?s1")
  with e have s2: "events s2 = events s @ [TorchGc, CompileUnetCall] @ evs" by simp
  have "\<exists>tl. events (snd (run_compile env m q s)) = events s @ [TorchGc, CompileUnetCall] @ tl"
    using assms c s2 by (cases r) (simp_all add: run_compile_def Let_def)
  then show ?thesis by (auto simp: recompiled_def)
qed

lemma run_compile_frame:
  "diffusion_model (snd (run_compile env m q s)) = diffusion_model s"
proof (cases "compiled_unet s")
  case Deleted
  then show ?thesis by (simp add: run_compile_def)
next
  case (Bound u)
  let ?s1 = "s\<lparr>compiled_unet := Deleted, events := events s @ [TorchGc, CompileUnetCall]\<rparr>"
  obtain evs where e: "snd (compile_unet env m q \<lparr>use_graph = True, options = []\<rparr> ?s1)
                        = ?s1\<lparr>events := events ?s1 @ evs\<rparr>"
    using compile_unet_appends by blast
  obtain r s2 where c: "compile_unet env m q \<lparr>use_graph = True, options = []\<rparr> ?s1 = (r, s2)"
    by (cases "compile_unet env m q \<lparr>use_graph = True, options = []\<rparr> ?s1")
  with e have "diffusion_model s2 = diffusion_model s" by simp
  with Bound c show ?thesis by (cases r) (simp_all add: run_compile_def Let_def)
qed

lemma need_compile_frame:
  "diffusion_model (snd (need_compile b m s)) = diffusion_model s"
  "compiled_unet (snd (need_compile b m s)) = compiled_unet s"
  by (simp_all add: need_compile_def Let_def)

lemma run_condition_frame:
  "diffusion_model (snd (run_condition env q s)) = diffusion_model s"
  "compiled_unet (snd (run_condition env q s)) = compiled_unet s"
  by (simp_all add: run_condition_def need_compile_frame)

lemma run_prepare_frame:
  "diffusion_model (snd (run_prepare env q s)) = diffusion_model s"
proof -
  obtain b s1 where c: "run_condition env q s = (b, s1)" by (cases "run_condition env q s")
  then have "diffusion_model s1 = diffusion_model s"
    using run_condition_frame(1) [of env q s] by simp
  with c show ?thesis
    by (cases b) (simp_all add: run_prepare_def run_compile_frame)
qed

section \<open>The scoped substitution\<close>

lemma with_stmt_unet:
  "compiled_unet s = Bound unet \<Longrightarrow>
   with_stmt UnetCompileCtx body s =
     (case body (s\<lparr>diffusion_model := unet\<rparr>) of
        (r, s') \<Rightarrow> (r, s'\<lparr>diffusion_model := diffusion_model s\<rparr>))"
  by (auto simp: with_stmt_def UnetCompileCtx_def split: prod.splits sum.splits)

lemma with_stmt_unet_restores:
  "diffusion_model (snd (with_stmt UnetCompileCtx body s)) = diffusion_model s"
  by (auto simp: with_stmt_def UnetCompileCtx_def split: prod.splits sum.splits binding.splits)

lemma run_restores:
  "diffusion_model (snd (run env p q s)) = diffusion_model s"
proof -
  obtain r1 s1 where c: "run_prepare env q s = (r1, s1)" by (cases "run_prepare env q s")
  then have d: "diffusion_model s1 = diffusion_model s"
    using run_prepare_frame [of env q s] by simp
  have w: "diffusion_model (snd (run_with env p s1)) = diffusion_model s1"
    by (simp add: run_with_def with_stmt_unet_restores)
  show ?thesis
    using c d w by (auto simp: run_def split: sum.splits prod.splits option.splits)
qed

lemma with_stmt_passes:
  assumes "lets_exceptions_pass cm" and "body (entered cm s) = (Inl e, s2)"
  shows "fst (with_stmt cm body s) = Inl e"
proof -
  from assms(1) obtain tok s1 where en: "cm_enter cm s = (Inr tok, s1)"
    unfolding lets_exceptions_pass_def by blast
  then have s1: "entered cm s = s1" by (simp add: entered_def)
  from assms(1) obtain s3 where ex: "cm_exit cm tok (Some e) s2 = (Inr False, s3)"
    unfolding lets_exceptions_pass_def by blast
  show ?thesis using en s1 ex assms(2) by (simp add: with_stmt_def)
qed

lemma with_stmt_returns:
  assumes "lets_exceptions_pass cm" and "body (entered cm s) = (Inr v, s2)"
  shows "fst (with_stmt cm body s) = Inr v"
proof -
  from assms(1) obtain tok s1 where en: "cm_enter cm s = (Inr tok, s1)"
    unfolding lets_exceptions_pass_def by blast
  then have s1: "entered cm s = s1" by (simp add: entered_def)
  from assms(1) obtain s3 where ex: "cm_exit cm tok None s2 = (Inr False, s3)"
    unfolding lets_exceptions_pass_def by blast
  show ?thesis using en s1 ex assms(2) by (simp add: with_stmt_def)
qed

lemma entered_diffusion_model:
  "lets_exceptions_pass cm \<Longrightarrow> diffusion_model (entered cm s) = diffusion_model s"
  unfolding lets_exceptions_pass_def entered_def
  by (metis snd_conv)

lemma run_inner_passes:
  assumes "lets_exceptions_pass (vae_ctx env)" "lets_exceptions_pass (sd21_ctx env)"
    "lets_exceptions_pass (lora_ctx env)"
    and "process_images env p (entered (lora_ctx env) (entered (sd21_ctx env) (entered (vae_ctx env) s))) = (Inl e, s')"
  shows "fst (run_inner env p s) = Inl e"
proof -
  let ?s2 = "entered (sd21_ctx env) (entered (vae_ctx env) s)"
  have b: "run_body env p (entered (lora_ctx env) ?s2) = (Inl e, s')"
    using assms(4) by (simp add: run_body_def)
  have "fst (with_stmt (lora_ctx env) (run_body env p) ?s2) = Inl e"
    by (rule with_stmt_passes [where body = "run_body env p" and ?s2.0 = s', OF assms(3) b])
  then obtain sa where la: "with_stmt (lora_ctx env) (run_body env p) ?s2 = (Inl e, sa)"
    by (metis prod.collapse)
  have "fst (with_stmt (sd21_ctx env) (with_stmt (lora_ctx env) (run_body env p))
               (entered (vae_ctx env) s)) = Inl e"
    by (rule with_stmt_passes
          [where body = "with_stmt (lora_ctx env) (run_body env p)" and ?s2.0 = sa, OF assms(2) la])
  then obtain sb where lb: "with_stmt (sd21_ctx env) (with_stmt (lora_ctx env) (run_body env p))
                              (entered (vae_ctx env) s) = (Inl e, sb)"
    by (metis prod.collapse)
  show ?thesis
    unfolding run_inner_def
    by (rule with_stmt_passes
          [where body = "with_stmt (sd21_ctx env) (with_stmt (lora_ctx env) (run_body env p))"
             and ?s2.0 = sb, OF assms(1) lb])
qed

lemma run_inner_raises:
  assumes "lets_exceptions_pass (vae_ctx env)" "lets_exceptions_pass (sd21_ctx env)"
    "lets_exceptions_pass (lora_ctx env)"
    and "process_images env p (call_state env s) = (Inl e, s')"
  shows "fst (run_inner env p s) = Inl e"
  using run_inner_passes [OF assms(1,2,3), of p s e s'] assms(4)
  by (simp add: call_state_def)

lemma run_inner_returns:
  assumes "lets_exceptions_pass (vae_ctx env)" "lets_exceptions_pass (sd21_ctx env)"
    "lets_exceptions_pass (lora_ctx env)"
    and "process_images env p (call_state env s) = (Inr proc, s')"
  shows "fst (run_inner env p s) = Inr (Some proc)"
proof -
  let ?s2 = "entered (sd21_ctx env) (entered (vae_ctx env) s)"
  have b: "run_body env p (entered (lora_ctx env) ?s2) = (Inr (Some proc), s')"
    using assms(4) by (simp add: run_body_def call_state_def)
  have "fst (with_stmt (lora_ctx env) (run_body env p) ?s2) = Inr (Some proc)"
    by (rule with_stmt_returns [where body = "run_body env p" and ?s2.0 = s', OF assms(3) b])
  then obtain sa where la: "with_stmt (lora_ctx env) (run_body env p) ?s2 = (Inr (Some proc), sa)"
    by (metis prod.collapse)
  have "fst (with_stmt (sd21_ctx env) (with_stmt (lora_ctx env) (run_body env p))
               (entered (vae_ctx env) s)) = Inr (Some proc)"
    by (rule with_stmt_returns
          [where body = "with_stmt (lora_ctx env) (run_body env p)" and ?s2.0 = sa, OF assms(2) la])
  then obtain sb where lb: "with_stmt (sd21_ctx env) (with_stmt (lora_ctx env) (run_body env p))
                              (entered (vae_ctx env) s) = (Inr (Some proc), sb)"
    by (metis prod.collapse)
  show ?thesis
    unfolding run_inner_def
    by (rule with_stmt_returns
          [where body = "with_stmt (sd21_ctx env) (with_stmt (lora_ctx env) (run_body env p))"
             and ?s2.0 = sb, OF assms(1) lb])
qed

lemma call_state_unet:
  assumes "lets_exceptions_pass (vae_ctx env)" "lets_exceptions_pass (sd21_ctx env)"
    "lets_exceptions_pass (lora_ctx env)"
  shows "diffusion_model (call_state env s) = diffusion_model s"
  using assms by (simp add: call_state_def entered_diffusion_model)

lemma run_after_prepare:
  assumes "run_prepare env q s = (Inr u, s1)" and "compiled_unet s1 = Bound unet"
  shows "run env p q s =
           (case run_inner env p (s1\<lparr>diffusion_model := unet\<rparr>) of
              (r, s2) \<Rightarrow>
                (case r of
                   Inl e \<Rightarrow> Inl e
                 | Inr None \<Rightarrow> Inl (UnboundLocalError ''proc'')
                 | Inr (Some proc) \<Rightarrow> Inr proc,
                 s2\<lparr>diffusion_model := diffusion_model s\<rparr>))"
proof -
  have d: "diffusion_model s1 = diffusion_model s"
    using run_prepare_frame [of env q s] assms(1) by simp
  have w: "run_with env p s1 =
             (case run_inner env p (s1\<lparr>diffusion_model := unet\<rparr>) of
                (r, s') \<Rightarrow> (r, s'\<lparr>diffusion_model := diffusion_model s1\<rparr>))"
    using assms(2) by (simp add: run_with_def with_stmt_unet)
  show ?thesis
    using assms(1) w d
    by (auto simp: run_def split: prod.splits sum.splits option.splits)
qed

lemma plain_ctx_passes: "lets_exceptions_pass plain_ctx"
  by (simp add: lets_exceptions_pass_def plain_ctx_def)

lemma skip_prepare:
  "run_prepare (demo_webui plain_ckpt) False compiled_world
     = (Inr (), compiled_world\<lparr>events := events compiled_world @ [InfoSkipCompile]\<rparr>)"
  by (simp add: run_prepare_def run_condition_def need_compile_def get_model_type_def getattr_def
      sdxl_model_def demo_webui_def compiled_world_def ckpt_name_def Let_def)

text \<open>
  Claim C8. The scoped substitution of a request replaces the shared diffusion model by
  the compiled UNet for the duration of \<open>process_images\<close> and restores the original
  diffusion model afterwards in every case, also when \<open>process_images\<close> raises, and the
  exception is not swallowed. For \<open>run\<close> as a whole: however it ends, the shared
  diffusion model afterwards is the one found at its start. When the part before the
  \<open>with\<close> statement has gone through and the name \<open>compiled_unet\<close> is bound, \<open>run\<close>
  is the inner block (the three other managers around \<open>process_images\<close>) started with
  the compiled UNet in place, its outcome handed on and the original model put back
  into the state it leaves. When moreover the three other managers let exceptions pass,
  \<open>process_images\<close> is called with the compiled UNet in place, an exception it raises
  is the exception \<open>run\<close> raises, and a result it returns is the result of \<open>run\<close>. The
  last part says the same of the \<open>with\<close> statement alone.
\<close>

theorem scoped_substitution_restores_and_propagates:
  "diffusion_model (snd (run env p quantization s)) = diffusion_model s \<and>
   (run_prepare env quantization s = (Inr u, s1) \<and> compiled_unet s1 = Bound unet \<longrightarrow>
      run env p quantization s =
        (case run_inner env p (s1\<lparr>diffusion_model := unet\<rparr>) of
           (r, s2) \<Rightarrow>
             (case r of
                Inl e \<Rightarrow> Inl e
              | Inr None \<Rightarrow> Inl (UnboundLocalError ''proc'')
              | Inr (Some proc) \<Rightarrow> Inr proc,
              s2\<lparr>diffusion_model := diffusion_model s\<rparr>))) \<and>
   (run_prepare env quantization s = (Inr u, s1) \<and> compiled_unet s1 = Bound unet \<and>
    lets_exceptions_pass (vae_ctx env) \<and> lets_exceptions_pass (sd21_ctx env) \<and>
    lets_exceptions_pass (lora_ctx env) \<longrightarrow>
      diffusion_model (call_state env (s1\<lparr>diffusion_model := unet\<rparr>)) = unet \<and>
      (\<forall>e s'. process_images env p (call_state env (s1\<lparr>diffusion_model := unet\<rparr>)) = (Inl e, s') \<longrightarrow>
         fst (run env p quantization s) = Inl e) \<and>
      (\<forall>proc s'. process_images env p (call_state env (s1\<lparr>diffusion_model := unet\<rparr>))
                    = (Inr proc, s') \<longrightarrow>
         fst (run env p quantization s) = Inr proc)) \<and>
   (compiled_unet s = Bound unet \<longrightarrow>
      run_with env p s =
        (case run_inner env p (s\<lparr>diffusion_model := unet\<rparr>) of
           (r, s') \<Rightarrow> (r, s'\<lparr>diffusion_model := diffusion_model s\<rparr>)))"
proof (intro conjI impI allI)
  show "diffusion_model (snd (run env p quantization s)) = diffusion_model s"
    by (rule run_restores)
next
  assume "run_prepare env quantization s = (Inr u, s1) \<and> compiled_unet s1 = Bound unet"
  then show "run env p quantization s =
        (case run_inner env p (s1\<lparr>diffusion_model := unet\<rparr>) of
           (r, s2) \<Rightarrow>
             (case r of
                Inl e \<Rightarrow> Inl e
              | Inr None \<Rightarrow> Inl (UnboundLocalError ''proc'')
              | Inr (Some proc) \<Rightarrow> Inr proc,
              s2\<lparr>diffusion_model := diffusion_model s\<rparr>))"
    by (intro run_after_prepare) simp_all
next
  assume "run_prepare env quantization s = (Inr u, s1) \<and> compiled_unet s1 = Bound unet \<and>
    lets_exceptions_pass (vae_ctx env) \<and> lets_exceptions_pass (sd21_ctx env) \<and>
    lets_exceptions_pass (lora_ctx env)"
  then show "diffusion_model (call_state env (s1\<lparr>diffusion_model := unet\<rparr>)) = unet"
    by (simp add: call_state_unet)
next
  fix e s'
  assume a: "run_prepare env quantization s = (Inr u, s1) \<and> compiled_unet s1 = Bound unet \<and>
    lets_exceptions_pass (vae_ctx env) \<and> lets_exceptions_pass (sd21_ctx env) \<and>
    lets_exceptions_pass (lora_ctx env)"
    and pi: "process_images env p (call_state env (s1\<lparr>diffusion_model := unet\<rparr>)) = (Inl e, s')"
  have i: "fst (run_inner env p (s1\<lparr>diffusion_model := unet\<rparr>)) = Inl e"
    using run_inner_raises [of env p "s1\<lparr>diffusion_model := unet\<rparr>" e s'] a pi by blast
  have r: "run env p quantization s =
        (case run_inner env p (s1\<lparr>diffusion_model := unet\<rparr>) of
           (r, s2) \<Rightarrow>
             (case r of
                Inl e \<Rightarrow> Inl e
              | Inr None \<Rightarrow> Inl (UnboundLocalError ''proc'')
              | Inr (Some proc) \<Rightarrow> Inr proc,
              s2\<lparr>diffusion_model := diffusion_model s\<rparr>))"
    using a by (intro run_after_prepare) simp_all
  show "fst (run env p quantization s) = Inl e"
    using i unfolding r by (auto split: prod.splits)
next
  fix proc s'
  assume a: "run_prepare env quantization s = (Inr u, s1) \<and> compiled_unet s1 = Bound unet \<and>
    lets_exceptions_pass (vae_ctx env) \<and> lets_exceptions_pass (sd21_ctx env) \<and>
    lets_exceptions_pass (lora_ctx env)"
    and pi: "process_images env p (call_state env (s1\<lparr>diffusion_model := unet\<rparr>)) = (Inr proc, s')"
  have i: "fst (run_inner env p (s1\<lparr>diffusion_model := unet\<rparr>)) = Inr (Some proc)"
    using run_inner_returns [of env p "s1\<lparr>diffusion_model := unet\<rparr>" proc s'] a pi by blast
  have r: "run env p quantization s =
        (case run_inner env p (s1\<lparr>diffusion_model := unet\<rparr>) of
           (r, s2) \<Rightarrow>
             (case r of
                Inl e \<Rightarrow> Inl e
              | Inr None \<Rightarrow> Inl (UnboundLocalError ''proc'')
              | Inr (Some proc) \<Rightarrow> Inr proc,
              s2\<lparr>diffusion_model := diffusion_model s\<rparr>))"
    using a by (intro run_after_prepare) simp_all
  show "fst (run env p quantization s) = Inr proc"
    using i unfolding r by (auto split: prod.splits)
next
  assume "compiled_unet s = Bound unet"
  then show "run_with env p s =
        (case run_inner env p (s\<lparr>diffusion_model := unet\<rparr>) of
           (r, s') \<Rightarrow> (r, s'\<lparr>diffusion_model := diffusion_model s\<rparr>))"
    by (simp add: run_with_def with_stmt_unet)
qed

text \<open>
  A request that finds the state left by an earlier one and skips compilation:
  \<open>process_images\<close> sees the compiled module 1001 and overwrites the shared diffusion
  model; on the request 0 it raises and \<open>run\<close> raises the same exception, on the request
  5 it returns and \<open>run\<close> returns its result, and the original module 1 is back in
  place.
\<close>

theorem scoped_substitution_restores_and_propagates_witness:
  "run_prepare (demo_webui plain_ckpt) False compiled_world
     = (Inr (), compiled_world\<lparr>events := events compiled_world @ [InfoSkipCompile]\<rparr>) \<and>
   compiled_unet (compiled_world\<lparr>events := events compiled_world @ [InfoSkipCompile]\<rparr>)
     = Bound (Obj 1001) \<and>
   lets_exceptions_pass (vae_ctx (demo_webui plain_ckpt)) \<and>
   lets_exceptions_pass (sd21_ctx (demo_webui plain_ckpt)) \<and>
   lets_exceptions_pass (lora_ctx (demo_webui plain_ckpt)) \<and>
   fst (process_images (demo_webui plain_ckpt) 0
          (call_state (demo_webui plain_ckpt)
             (compiled_world\<lparr>events := events compiled_world @ [InfoSkipCompile],
                             diffusion_model := Obj 1001\<rparr>)))
     = Inl (External ''process_images'') \<and>
   fst (process_images (demo_webui plain_ckpt) 5
          (call_state (demo_webui plain_ckpt)
             (compiled_world\<lparr>events := events compiled_world @ [InfoSkipCompile],
                             diffusion_model := Obj 1001\<rparr>)))
     = Inr 5 \<and>
   diffusion_model (call_state (demo_webui plain_ckpt)
             (compiled_world\<lparr>events := events compiled_world @ [InfoSkipCompile],
                             diffusion_model := Obj 1001\<rparr>)) = Obj 1001 \<and>
   fst (run (demo_webui plain_ckpt) 0 False compiled_world) = Inl (External ''process_images'') \<and>
   fst (run (demo_webui plain_ckpt) 5 False compiled_world) = Inr 5 \<and>
   diffusion_model (snd (run (demo_webui plain_ckpt) 0 False compiled_world)) = Obj 1"
proof -
  let ?env = "demo_webui plain_ckpt"
  let ?s1 = "compiled_world\<lparr>events := events compiled_world @ [InfoSkipCompile]\<rparr>"
  have b: "compiled_unet ?s1 = Bound (Obj 1001)"
    by (simp add: compiled_world_def)
  have c: "lets_exceptions_pass (vae_ctx ?env)" "lets_exceptions_pass (sd21_ctx ?env)"
    "lets_exceptions_pass (lora_ctx ?env)"
    by (simp_all add: demo_webui_def plain_ctx_passes)
  have cs: "call_state ?env (?s1\<lparr>diffusion_model := Obj 1001\<rparr>) = ?s1\<lparr>diffusion_model := Obj 1001\<rparr>"
    by (simp add: call_state_def demo_webui_def plain_ctx_def entered_def)
  have pi0: "process_images ?env 0 (call_state ?env (?s1\<lparr>diffusion_model := Obj 1001\<rparr>))
               = (Inl (External ''process_images''), ?s1\<lparr>diffusion_model := PyNone\<rparr>)"
    unfolding cs by (simp add: demo_webui_def)
  have pi5: "process_images ?env 5 (call_state ?env (?s1\<lparr>diffusion_model := Obj 1001\<rparr>))
               = (Inr 5, ?s1\<lparr>diffusion_model := PyNone\<rparr>)"
    unfolding cs by (simp add: demo_webui_def)
  have d: "diffusion_model compiled_world = Obj 1"
    by (simp add: compiled_world_def)
  note t0 = scoped_substitution_restores_and_propagates
      [of ?env 0 False compiled_world "()" ?s1 "Obj 1001"]
  note t5 = scoped_substitution_restores_and_propagates
      [of ?env 5 False compiled_world "()" ?s1 "Obj 1001"]
  have r0: "fst (run ?env 0 False compiled_world) = Inl (External ''process_images'')"
    using t0 skip_prepare b c pi0 by blast
  have r5: "fst (run ?env 5 False compiled_world) = Inr 5"
    using t5 skip_prepare b c pi5 by blast
  have u: "diffusion_model (call_state ?env (?s1\<lparr>diffusion_model := Obj 1001\<rparr>)) = Obj 1001"
    using t0 skip_prepare b c by blast
  have rest: "diffusion_model (snd (run ?env 0 False compiled_world)) = Obj 1"
    using t0 d by simp
  have p0: "fst (process_images ?env 0 (call_state ?env (?s1\<lparr>diffusion_model := Obj 1001\<rparr>)))
              = Inl (External ''process_images'')"
    using pi0 by simp
  have p5: "fst (process_images ?env 5 (call_state ?env (?s1\<lparr>diffusion_model := Obj 1001\<rparr>)))
              = Inr 5"
    using pi5 by simp
  show ?thesis
    using skip_prepare b c p0 p5 u r0 r5 rest by simp
qed

section \<open>When \<open>Script.run\<close> recompiles\<close>

lemma run_prepare_skip:
  assumes "run_condition env q s = (False, s1)"
  shows "run_prepare env q s = (Inr (), s1\<lparr>events := events s1 @ [InfoSkipCompile]\<rparr>)"
  using assms by (simp add: run_prepare_def)

lemma need_compile_false_state:
  assumes "\<not> fst (need_compile b m s)"
  shows "\<exists>evs. snd (need_compile b m s) = s\<lparr>events := events s @ evs\<rparr> \<and> CompileUnetCall \<notin> set evs"
proof (cases b)
  case True
  with assms have "snd (need_compile b m s) = s\<lparr>events := events s @ [WarnReuseCompiledGraph]\<rparr>"
    by (auto simp: need_compile_def Let_def split: if_splits)
  then show ?thesis by auto
next
  case False
  with assms have "snd (need_compile b m s) = s\<lparr>events := events s @ []\<rparr> \<and>
                   CompileUnetCall \<notin> set []"
    by (auto simp: need_compile_def Let_def split: if_splits)
  then show ?thesis by blast
qed

lemma run_prepare_reuse:
  assumes "\<not> fst (run_condition env q s)"
  shows "fst (run_prepare env q s) = Inr () \<and>
         compiled_unet (snd (run_prepare env q s)) = compiled_unet s \<and>
         compiled_ckpt_name (snd (run_prepare env q s)) = compiled_ckpt_name s \<and>
         \<not> recompiled s (snd (run_prepare env q s))"
proof -
  from assms have nc: "run_condition env q s = need_compile (mlir_opt env) (sd_model s) s"
    by (auto simp: run_condition_def split: if_splits)
  with assms have f: "\<not> fst (need_compile (mlir_opt env) (sd_model s) s)" by simp
  then obtain evs where e: "snd (need_compile (mlir_opt env) (sd_model s) s) = s\<lparr>events := events s @ evs\<rparr>"
      and n: "CompileUnetCall \<notin> set evs"
    using need_compile_false_state by blast
  have c: "run_condition env q s = (False, s\<lparr>events := events s @ evs\<rparr>)"
    using nc f e by (metis prod.collapse)
  show ?thesis
    using run_prepare_skip [OF c] n by (simp add: recompiled_def)
qed

lemma run_prepare_compile:
  assumes "fst (run_condition env q s)" and "compiled_unet s = Bound u"
  shows "recompiled s (snd (run_prepare env q s))"
proof -
  obtain s1 where c: "run_condition env q s = (True, s1)"
    using assms(1) by (metis prod.collapse)
  have ev: "\<exists>evs. events s1 = events s @ evs"
    using c by (auto simp: run_condition_def need_compile_def Let_def split: if_splits)
  have b: "compiled_unet s1 = Bound u"
    using c assms(2) run_condition_frame(2) [of env q s] by simp
  have r: "recompiled s1 (snd (run_compile env (diffusion_model s) q s1))"
    by (rule run_compile_recompiled [OF b])
  obtain evs where evs: "events s1 = events s @ evs" using ev by blast
  have a: "\<exists>tl. events (snd (run_compile env (diffusion_model s) q s1)) = events s1 @ tl"
  proof -
    let ?s1 = "s1\<lparr>compiled_unet := Deleted, events := events s1 @ [TorchGc, CompileUnetCall]\<rparr>"
    obtain evs2 where e: "snd (compile_unet env (diffusion_model s) q \<lparr>use_graph = True, options = []\<rparr> ?s1)
                        = ?s1\<lparr>events := events ?s1 @ evs2\<rparr>"
      using compile_unet_appends by blast
    obtain r s2 where cu: "compile_unet env (diffusion_model s) q \<lparr>use_graph = True, options = []\<rparr> ?s1 = (r, s2)"
      by (cases "compile_unet env (diffusion_model s) q \<lparr>use_graph = True, options = []\<rparr> ?s1")
    with e have s2: "events s2 = events s1 @ [TorchGc, CompileUnetCall] @ evs2" by simp
    show ?thesis using b cu s2 by (cases r) (simp_all add: run_compile_def Let_def)
  qed
  then obtain tl where tl: "events (snd (run_compile env (diffusion_model s) q s1)) = events s1 @ tl"
    by blast
  from r tl have "CompileUnetCall \<in> set tl" by (simp add: recompiled_def)
  then have "recompiled s (snd (run_compile env (diffusion_model s) q s1))"
    using tl evs by (simp add: recompiled_def)
  then show ?thesis using c by (simp add: run_prepare_def)
qed

lemma run_prepare_decision:
  assumes "compiled_unet s = Bound u"
    and "current_type s = Some (get_model_type m0)"
  shows "(recompiled s (snd (run_prepare env q s)) \<longleftrightarrow>
            (q \<and> Some (ckpt_name q (sd_model_checkpoint s)) \<noteq> compiled_ckpt_name s) \<or>
            (\<exists>key \<in> {''is_sdxl'', ''is_sd2'', ''is_sd1'', ''is_ssd''}.
               getattr m0 key False \<noteq> getattr (sd_model s) key False)) \<and>
         (\<not> recompiled s (snd (run_prepare env q s)) \<longrightarrow>
            fst (run_prepare env q s) = Inr () \<and>
            compiled_unet (snd (run_prepare env q s)) = compiled_unet s \<and>
            compiled_ckpt_name (snd (run_prepare env q s)) = compiled_ckpt_name s)"
proof -
  have cond: "fst (run_condition env q s) \<longleftrightarrow>
            (q \<and> Some (ckpt_name q (sd_model_checkpoint s)) \<noteq> compiled_ckpt_name s) \<or>
            (\<exists>key \<in> {''is_sdxl'', ''is_sd2'', ''is_sd1'', ''is_ssd''}.
               getattr m0 key False \<noteq> getattr (sd_model s) key False)"
    using assms(2) type_differs_get_model_type [of m0 "sd_model s"]
    by (auto simp: run_condition_def need_compile_def Let_def)
  have iff: "recompiled s (snd (run_prepare env q s)) \<longleftrightarrow> fst (run_condition env q s)"
    using run_prepare_compile [OF _ assms(1), of env q] run_prepare_reuse [of env q s] by blast
  show ?thesis
    using cond iff run_prepare_reuse [of env q s] by blast
qed

lemma run_condition_keeps:
  "sd_model_checkpoint (snd (run_condition env q s)) = sd_model_checkpoint s \<and>
   sd_model (snd (run_condition env q s)) = sd_model s"
  by (simp add: run_condition_def need_compile_def Let_def)

lemma run_compile_success:
  assumes "run_compile env m q s = (Inr u, s1)"
  shows "\<exists>unet. compiled_unet s1 = Bound unet \<and>
                compiled_ckpt_name s1 = Some (ckpt_name q (sd_model_checkpoint s)) \<and>
                sd_model_checkpoint s1 = sd_model_checkpoint s \<and> sd_model s1 = sd_model s"
proof (cases "compiled_unet s")
  case Deleted
  with assms show ?thesis by (simp add: run_compile_def)
next
  case (Bound u0)
  let ?s1 = "s\<lparr>compiled_unet := Deleted, events := events s @ [TorchGc, CompileUnetCall]\<rparr>"
  obtain evs where e: "snd (compile_unet env m q \<lparr>use_graph = True, options = []\<rparr> ?s1)
                        = ?s1\<lparr>events := events ?s1 @ evs\<rparr>"
    using compile_unet_appends by blast
  obtain r s2 where c: "compile_unet env m q \<lparr>use_graph = True, options = []\<rparr> ?s1 = (r, s2)"
    by (cases "compile_unet env m q \<lparr>use_graph = True, options = []\<rparr> ?s1")
  with e have s2: "s2 = ?s1\<lparr>events := events ?s1 @ evs\<rparr>" by simp
  show ?thesis
  proof (cases r)
    case (Inl err)
    with assms Bound c show ?thesis by (simp add: run_compile_def Let_def)
  next
    case (Inr unet)
    with assms Bound c have "s1 = s2\<lparr>compiled_unet := Bound unet,
        compiled_ckpt_name := Some (ckpt_name q (sd_model_checkpoint s)),
        events := events s2 @ [TorchGc]\<rparr>"
      by (simp add: run_compile_def Let_def)
    then show ?thesis using s2 by simp
  qed
qed

lemma first_compile_state:
  assumes "run_prepare env q s0 = (Inr u, s1)" and "recompiled s0 s1"
  shows "\<exists>unet. compiled_unet s1 = Bound unet \<and>
                compiled_ckpt_name s1 = Some (ckpt_name q (sd_model_checkpoint s0)) \<and>
                sd_model_checkpoint s1 = sd_model_checkpoint s0 \<and> sd_model s1 = sd_model s0"
proof -
  have c: "fst (run_condition env q s0)"
    using run_prepare_reuse [of env q s0] assms by auto
  then obtain sc where sc: "run_condition env q s0 = (True, sc)" by (metis prod.collapse)
  have k: "sd_model_checkpoint sc = sd_model_checkpoint s0" "sd_model sc = sd_model s0"
    using run_condition_keeps [of env q s0] sc by simp_all
  have "run_compile env (diffusion_model s0) q sc = (Inr u, s1)"
    using assms(1) sc by (simp add: run_prepare_def)
  from run_compile_success [OF this] k show ?thesis by simp
qed

lemma run_prepare_by_key:
  assumes "q" and "Some (ckpt_name q (sd_model_checkpoint s)) \<noteq> compiled_ckpt_name s"
  shows "run_prepare env q s = run_compile env (diffusion_model s) q s"
  using assms by (simp add: run_prepare_def run_condition_def)

lemma run_compile_stores:
  assumes "compiled_unet s = Bound u0"
    and "compile_unet env m q \<lparr>use_graph = True, options = []\<rparr>
           (s\<lparr>compiled_unet := Deleted, events := events s @ [TorchGc, CompileUnetCall]\<rparr>)
         = (Inr unet, s')"
  shows "fst (run_compile env m q s) = Inr () \<and>
         compiled_unet (snd (run_compile env m q s)) = Bound unet \<and>
         compiled_ckpt_name (snd (run_compile env m q s))
           = Some (ckpt_name q (sd_model_checkpoint s))"
  using assms by (simp add: run_compile_def Let_def)

lemma first_request:
  "snd (run (demo_webui plain_ckpt) 1 False (fresh_world ''a'' sdxl_model (Obj 1))) = compiled_world"
  by (simp add: run_def run_prepare_def run_condition_def need_compile_def run_compile_def
      compile_unet_def compile_step_def run_with_def run_inner_def run_body_def with_stmt_def
      UnetCompileCtx_def plain_ctx_def demo_webui_def fresh_world_def compiled_world_def
      ckpt_name_def Let_def)

lemma first_prepare:
  "run_prepare (demo_webui plain_ckpt) False (fresh_world ''a'' sdxl_model (Obj 1))
     = (Inr (), compiled_world)"
  by (simp add: run_prepare_def run_condition_def need_compile_def run_compile_def
      compile_unet_def compile_step_def demo_webui_def fresh_world_def compiled_world_def
      ckpt_name_def Let_def)

text \<open>
  Claim C1, as the code has it. The claim reads: whenever the identity of a request
  (checkpoint name plus quantization flag) differs from that of the request before,
  \<open>Script.run\<close> recompiles the UNet, and it reuses the compiled module when identity and
  model-type signature are unchanged. The code compares the key \<open>ckpt_name\<close> with the
  key of the last compilation only when the request asks for quantization. For two
  requests in a row, of which the first has compiled without raising and has left the
  signature of its model stored, and between which the host may have selected another
  checkpoint, model and UNet: the second request enters \<open>compile_unet\<close> when it asks for
  quantization and its key differs from the key of the first, and then the module that
  \<open>compile_unet\<close> returns for the current UNet becomes the compiled module under the
  new key; it also enters \<open>compile_unet\<close> when one of the four family flags differs
  between the two models. When all four flags agree and either checkpoint name and
  quantization flag are those of the first request, or neither request asks for
  quantization, the second request rebuilds nothing and the compiled module and its key
  stay as the first request left them, whatever the checkpoint name. Nothing is said
  here of a second request that switches quantization off.
\<close>

theorem run_recompiles_on_key_or_signature_change:
  assumes "run_prepare env q1 s0 = (Inr u, s1)" and "recompiled s0 s1"
    and "current_type s1 = Some (get_model_type (sd_model s0))"
  shows "(q2 \<and> ckpt_name q2 c2 \<noteq> ckpt_name q1 (sd_model_checkpoint s0) \<longrightarrow>
            recompiled (next_request c2 m2 d2 s1) (snd (run_prepare env q2 (next_request c2 m2 d2 s1))) \<and>
            (\<forall>unet s'.
               compile_unet env d2 q2 \<lparr>use_graph = True, options = []\<rparr>
                 ((next_request c2 m2 d2 s1)
                    \<lparr>compiled_unet := Deleted,
                     events := events s1 @ [TorchGc, CompileUnetCall]\<rparr>) = (Inr unet, s') \<longrightarrow>
               fst (run_prepare env q2 (next_request c2 m2 d2 s1)) = Inr () \<and>
               compiled_unet (snd (run_prepare env q2 (next_request c2 m2 d2 s1))) = Bound unet \<and>
               compiled_ckpt_name (snd (run_prepare env q2 (next_request c2 m2 d2 s1)))
                 = Some (ckpt_name q2 c2))) \<and>
         ((\<exists>key \<in> {''is_sdxl'', ''is_sd2'', ''is_sd1'', ''is_ssd''}.
             getattr (sd_model s0) key False \<noteq> getattr m2 key False) \<longrightarrow>
            recompiled (next_request c2 m2 d2 s1) (snd (run_prepare env q2 (next_request c2 m2 d2 s1)))) \<and>
         ((\<forall>key \<in> {''is_sdxl'', ''is_sd2'', ''is_sd1'', ''is_ssd''}.
             getattr (sd_model s0) key False = getattr m2 key False) \<and>
          (q2 = q1 \<and> c2 = sd_model_checkpoint s0 \<or> \<not> q1 \<and> \<not> q2) \<longrightarrow>
            \<not> recompiled (next_request c2 m2 d2 s1)
                (snd (run_prepare env q2 (next_request c2 m2 d2 s1))) \<and>
            fst (run_prepare env q2 (next_request c2 m2 d2 s1)) = Inr () \<and>
            compiled_unet (snd (run_prepare env q2 (next_request c2 m2 d2 s1))) = compiled_unet s1 \<and>
            compiled_ckpt_name (snd (run_prepare env q2 (next_request c2 m2 d2 s1)))
              = compiled_ckpt_name s1)"
proof -
  let ?s2 = "next_request c2 m2 d2 s1"
  from first_compile_state [OF assms(1,2)] obtain unet1 where
    b: "compiled_unet s1 = Bound unet1"
    and k: "compiled_ckpt_name s1 = Some (ckpt_name q1 (sd_model_checkpoint s0))"
    by blast
  have b2: "compiled_unet ?s2 = Bound unet1" using b by (simp add: next_request_def)
  have t2: "current_type ?s2 = Some (get_model_type (sd_model s0))"
    using assms(3) by (simp add: next_request_def)
  have f2: "sd_model_checkpoint ?s2 = c2" "sd_model ?s2 = m2" "diffusion_model ?s2 = d2"
    "compiled_ckpt_name ?s2 = Some (ckpt_name q1 (sd_model_checkpoint s0))"
    "events ?s2 = events s1" "compiled_unet ?s2 = compiled_unet s1"
    "compiled_ckpt_name ?s2 = compiled_ckpt_name s1"
    using k by (simp_all add: next_request_def)
  note d = run_prepare_decision [OF b2 t2, of env q2]
  have dd: "recompiled ?s2 (snd (run_prepare env q2 ?s2)) \<longleftrightarrow>
              (q2 \<and> ckpt_name q2 c2 \<noteq> ckpt_name q1 (sd_model_checkpoint s0)) \<or>
              (\<exists>key \<in> {''is_sdxl'', ''is_sd2'', ''is_sd1'', ''is_ssd''}.
                 getattr (sd_model s0) key False \<noteq> getattr m2 key False)"
    using d unfolding f2(1) f2(2) f2(4) by simp
  show ?thesis
  proof (intro conjI impI allI)
    assume a: "q2 \<and> ckpt_name q2 c2 \<noteq> ckpt_name q1 (sd_model_checkpoint s0)"
    then show "recompiled ?s2 (snd (run_prepare env q2 ?s2))"
      using dd by blast
  next
    fix unet s'
    assume a: "q2 \<and> ckpt_name q2 c2 \<noteq> ckpt_name q1 (sd_model_checkpoint s0)"
      and c: "compile_unet env d2 q2 \<lparr>use_graph = True, options = []\<rparr>
                 (?s2\<lparr>compiled_unet := Deleted,
                     events := events s1 @ [TorchGc, CompileUnetCall]\<rparr>) = (Inr unet, s')"
    from a have q: q2 by blast
    from a have nk: "Some (ckpt_name q2 (sd_model_checkpoint ?s2)) \<noteq> compiled_ckpt_name ?s2"
      unfolding f2(1) f2(4) by blast
    have "run_prepare env q2 ?s2 = run_compile env (diffusion_model ?s2) q2 ?s2"
      by (rule run_prepare_by_key [OF q nk])
    then have e: "run_prepare env q2 ?s2 = run_compile env d2 q2 ?s2"
      by (simp only: f2(3))
    have c': "compile_unet env d2 q2 \<lparr>use_graph = True, options = []\<rparr>
                 (?s2\<lparr>compiled_unet := Deleted,
                     events := events ?s2 @ [TorchGc, CompileUnetCall]\<rparr>) = (Inr unet, s')"
      using c f2(5) by simp
    note st = run_compile_stores [OF b2 c']
    show "fst (run_prepare env q2 ?s2) = Inr ()" using st e by simp
    show "compiled_unet (snd (run_prepare env q2 ?s2)) = Bound unet" using st e by simp
    show "compiled_ckpt_name (snd (run_prepare env q2 ?s2)) = Some (ckpt_name q2 c2)"
      using st e f2(1) by simp
  next
    assume "\<exists>key \<in> {''is_sdxl'', ''is_sd2'', ''is_sd1'', ''is_ssd''}.
             getattr (sd_model s0) key False \<noteq> getattr m2 key False"
    then show "recompiled ?s2 (snd (run_prepare env q2 ?s2))"
      using dd by blast
  next
    assume a: "(\<forall>key \<in> {''is_sdxl'', ''is_sd2'', ''is_sd1'', ''is_ssd''}.
             getattr (sd_model s0) key False = getattr m2 key False) \<and>
          (q2 = q1 \<and> c2 = sd_model_checkpoint s0 \<or> \<not> q1 \<and> \<not> q2)"
    then have nk: "\<not> (q2 \<and> ckpt_name q2 c2 \<noteq> ckpt_name q1 (sd_model_checkpoint s0))"
      by auto
    have nf: "\<not> (\<exists>key \<in> {''is_sdxl'', ''is_sd2'', ''is_sd1'', ''is_ssd''}.
             getattr (sd_model s0) key False \<noteq> getattr m2 key False)"
      using a by blast
    have n: "\<not> recompiled ?s2 (snd (run_prepare env q2 ?s2))"
      using dd nk nf by blast
    then show "\<not> recompiled ?s2 (snd (run_prepare env q2 ?s2))" .
    show "fst (run_prepare env q2 ?s2) = Inr ()" using d n by blast
    show "compiled_unet (snd (run_prepare env q2 ?s2)) = compiled_unet s1"
      using d n f2(6) by simp
    show "compiled_ckpt_name (snd (run_prepare env q2 ?s2)) = compiled_ckpt_name s1"
      using d n f2(7) by simp
  qed
qed

text \<open>
  After a first request for checkpoint \<open>a\<close> without quantization: the same checkpoint
  with quantization recompiles and stores the quantized module 11001; checkpoint \<open>b\<close>
  on an SD2 model recompiles; checkpoint \<open>b\<close> on a model of the same signature without
  quantization keeps the module 1001.
\<close>

theorem run_recompiles_on_key_or_signature_change_witness:
  "run_prepare (demo_webui plain_ckpt) False (fresh_world ''a'' sdxl_model (Obj 1))
     = (Inr (), compiled_world) \<and>
   recompiled (fresh_world ''a'' sdxl_model (Obj 1)) compiled_world \<and>
   current_type compiled_world
     = Some (get_model_type (sd_model (fresh_world ''a'' sdxl_model (Obj 1) :: nat world))) \<and>
   recompiled (next_request ''a'' sdxl_model (Obj 1) compiled_world)
     (snd (run_prepare (demo_webui plain_ckpt) True (next_request ''a'' sdxl_model (Obj 1) compiled_world))) \<and>
   compiled_unet (snd (run_prepare (demo_webui plain_ckpt) True
                         (next_request ''a'' sdxl_model (Obj 1) compiled_world))) = Bound (Obj 11001) \<and>
   recompiled (next_request ''b'' sd2_model (Obj 2) compiled_world)
     (snd (run_prepare (demo_webui plain_ckpt) False (next_request ''b'' sd2_model (Obj 2) compiled_world))) \<and>
   \<not> recompiled (next_request ''b'' sdxl_model (Obj 2) compiled_world)
       (snd (run_prepare (demo_webui plain_ckpt) False (next_request ''b'' sdxl_model (Obj 2) compiled_world))) \<and>
   compiled_unet (snd (run_prepare (demo_webui plain_ckpt) False
                         (next_request ''b'' sdxl_model (Obj 2) compiled_world))) = Bound (Obj 1001)"
proof -
  let ?env = "demo_webui plain_ckpt"
  let ?s0 = "fresh_world ''a'' sdxl_model (Obj 1) :: nat world"
  have r: "recompiled ?s0 compiled_world"
    by (simp add: recompiled_def fresh_world_def compiled_world_def)
  have t: "current_type compiled_world = Some (get_model_type (sd_model ?s0))"
    by (simp add: compiled_world_def fresh_world_def)
  have c0: "sd_model_checkpoint ?s0 = ''a''" "sd_model ?s0 = sdxl_model"
    by (simp_all add: fresh_world_def)
  have flags_differ: "\<exists>key \<in> {''is_sdxl'', ''is_sd2'', ''is_sd1'', ''is_ssd''}.
             getattr (sd_model ?s0) key False \<noteq> getattr sd2_model key False"
    by (simp add: fresh_world_def getattr_def sdxl_model_def sd2_model_def)
  have flags_same: "\<forall>key \<in> {''is_sdxl'', ''is_sd2'', ''is_sd1'', ''is_ssd''}.
             getattr (sd_model ?s0) key False = getattr sdxl_model key False"
    by (simp add: fresh_world_def)
  have key: "ckpt_name True ''a'' \<noteq> ckpt_name False (sd_model_checkpoint ?s0)"
    by (simp add: ckpt_name_def fresh_world_def)
  have cu: "compile_unet ?env (Obj 1) True \<lparr>use_graph = True, options = []\<rparr>
              ((next_request ''a'' sdxl_model (Obj 1) compiled_world)
                 \<lparr>compiled_unet := Deleted,
                  events := events compiled_world @ [TorchGc, CompileUnetCall]\<rparr>)
            = (Inr (Obj 11001),
               (next_request ''a'' sdxl_model (Obj 1) compiled_world)
                 \<lparr>compiled_unet := Deleted,
                  events := events compiled_world @ [TorchGc, CompileUnetCall]\<rparr>)"
    by (simp add: compile_unet_def compile_step_def quantize_step_def get_calibrate_info_def
        demo_webui_def demo_fs_def joinpath_def parent_def stem_def plain_ckpt_def Let_def)
  note t1 = run_recompiles_on_key_or_signature_change
      [OF first_prepare r t, of True "''a''" sdxl_model "Obj 1"]
  note t2 = run_recompiles_on_key_or_signature_change
      [OF first_prepare r t, of False "''b''" sd2_model "Obj 2"]
  note t3 = run_recompiles_on_key_or_signature_change
      [OF first_prepare r t, of False "''b''" sdxl_model "Obj 2"]
  have a1: "recompiled (next_request ''a'' sdxl_model (Obj 1) compiled_world)
     (snd (run_prepare ?env True (next_request ''a'' sdxl_model (Obj 1) compiled_world)))"
    using t1 key by blast
  have a2: "compiled_unet (snd (run_prepare ?env True
                         (next_request ''a'' sdxl_model (Obj 1) compiled_world))) = Bound (Obj 11001)"
    using t1 key cu by blast
  have a3: "recompiled (next_request ''b'' sd2_model (Obj 2) compiled_world)
     (snd (run_prepare ?env False (next_request ''b'' sd2_model (Obj 2) compiled_world)))"
    using t2 flags_differ by blast
  have a4: "\<not> recompiled (next_request ''b'' sdxl_model (Obj 2) compiled_world)
       (snd (run_prepare ?env False (next_request ''b'' sdxl_model (Obj 2) compiled_world))) \<and>
     compiled_unet (snd (run_prepare ?env False
                         (next_request ''b'' sdxl_model (Obj 2) compiled_world))) = compiled_unet compiled_world"
    using t3 flags_same by blast
  have b: "compiled_unet compiled_world = Bound (Obj 1001)" by (simp add: compiled_world_def)
  have a5: "compiled_unet (snd (run_prepare ?env False
                         (next_request ''b'' sdxl_model (Obj 2) compiled_world))) = Bound (Obj 1001)"
    using a4 b by simp
  show ?thesis
    using first_prepare r t a1 a2 a3 a4 a5 by blast
qed

text \<open>
  Two requests without quantization on models of one signature, the first for
  checkpoint \<open>a\<close> and the second for checkpoint \<open>b\<close>: the identities differ, and the
  second request neither enters \<open>compile_unet\<close> nor replaces the compiled module.
\<close>

theorem run_reuses_across_checkpoints_counterexample:
  "snd (run (demo_webui plain_ckpt) 1 False (fresh_world ''a'' sdxl_model (Obj 1))) = compiled_world \<and>
   ckpt_name False ''a'' \<noteq> ckpt_name False ''b'' \<and>
   \<not> recompiled (compiled_world\<lparr>sd_model_checkpoint := ''b''\<rparr>)
       (snd (run (demo_webui plain_ckpt) 1 False (compiled_world\<lparr>sd_model_checkpoint := ''b''\<rparr>))) \<and>
   compiled_unet (snd (run (demo_webui plain_ckpt) 1 False
       (compiled_world\<lparr>sd_model_checkpoint := ''b''\<rparr>))) = compiled_unet compiled_world"
proof -
  have "snd (run (demo_webui plain_ckpt) 1 False (compiled_world\<lparr>sd_model_checkpoint := ''b''\<rparr>))
        = compiled_world\<lparr>sd_model_checkpoint := ''b'',
             events := [TorchGc, CompileUnetCall, TorchGc, InfoSkipCompile]\<rparr>"
    by (simp add: run_def run_prepare_def run_condition_def need_compile_def
      run_with_def run_inner_def run_body_def with_stmt_def get_model_type_def getattr_def
      sdxl_model_def
      UnetCompileCtx_def plain_ctx_def demo_webui_def compiled_world_def
      ckpt_name_def Let_def)
  then show ?thesis
    using first_request by (simp add: recompiled_def compiled_world_def ckpt_name_def)
qed

section \<open>\<open>compile_unet\<close> on a module of an unsupported class\<close>

lemma demo_calibrate_info:
  "get_calibrate_info (demo_webui conv_ckpt) (stem conv_ckpt @ ''_sd_calibrate_info.txt'') s
     = (Inr (Some [''conv1'' \<mapsto> (1 / 2, 3, [1, 2, 3])]),
        s\<lparr>events := events s @ [InfoGotCalibrateInfo]\<rparr>)"
proof -
  have p: "joinpath (parent conv_ckpt) (stem conv_ckpt @ ''_sd_calibrate_info.txt'')
           = [''models'', ''conv_sd_calibrate_info.txt'']"
    by (simp add: joinpath_def parent_def stem_def conv_ckpt_def Let_def)
  show ?thesis
    by (simp add: get_calibrate_info_def p demo_webui_def demo_fs_def calibrate_entry_def
        strip_def is_space_def decimal_float_def decimal_int_def digit_val_def Let_def)
qed

text \<open>
  Claim C6, as the code has it. The claim reads: for a module that is neither an LDM nor
  an SGM \<open>UNetModel\<close>, \<open>compile_unet\<close> does not raise, warns and returns the module
  unchanged. That holds when quantization is off, the default: the result is the module
  itself and the only effect is the warning. With quantization on, the warned and
  uncompiled module goes through the quantization step like any compiled one, and the
  result of \<open>compile_unet\<close> is whatever that step yields or raises.
\<close>

theorem compile_unet_unsupported_type:
  assumes "\<not> isinstance_ldm env m" and "\<not> isinstance_sgm env m"
  shows "compile_unet env (Obj m) False args s =
           (Inr (Obj m), s\<lparr>events := events s @ [WarnUnsupportedModelType]\<rparr>) \<and>
         compile_unet env (Obj m) True args s =
           quantize_step env (Obj m) (s\<lparr>events := events s @ [WarnUnsupportedModelType]\<rparr>)"
  using assms by (simp add: compile_unet_def compile_step_def)

text \<open>The module 500 is of neither class; without quantization it comes back as it is.\<close>

theorem compile_unet_unsupported_type_witness:
  "\<not> isinstance_ldm (demo_webui plain_ckpt) 500 \<and> \<not> isinstance_sgm (demo_webui plain_ckpt) 500 \<and>
   compile_unet (demo_webui plain_ckpt) (Obj 500) False unit_args compiled_world =
     (Inr (Obj 500), compiled_world\<lparr>events := events compiled_world @ [WarnUnsupportedModelType]\<rparr>)"
proof -
  have h: "\<not> isinstance_ldm (demo_webui plain_ckpt) 500" "\<not> isinstance_sgm (demo_webui plain_ckpt) 500"
    by (simp_all add: demo_webui_def)
  show ?thesis
    using compile_unet_unsupported_type [OF h, of unit_args compiled_world] h by blast
qed

text \<open>
  The same module with quantization on and a calibration file present: no exception,
  but the result is the quantized module 20500 and not the module 500 handed in.
\<close>

theorem compile_unet_unsupported_quantized_counterexample:
  "\<not> isinstance_ldm (demo_webui conv_ckpt) 500 \<and> \<not> isinstance_sgm (demo_webui conv_ckpt) 500 \<and>
   fst (compile_unet (demo_webui conv_ckpt) (Obj 500) True unit_args (fresh_world ''conv'' sdxl_model (Obj 500)))
     = Inr (Obj 20500) \<and>
   fst (compile_unet (demo_webui conv_ckpt) (Obj 500) True unit_args (fresh_world ''conv'' sdxl_model (Obj 500)))
     \<noteq> Inr (Obj 500)"
proof -
  have c: "select_checkpoint (demo_webui conv_ckpt) = Inr conv_ckpt"
    by (simp add: demo_webui_def)
  have q: "quantize_model (demo_webui conv_ckpt) (Obj 500) (Some [''conv1'' \<mapsto> (1 / 2, 3, [1, 2, 3])])
           = Inr (Obj 20500)"
    by (simp add: demo_webui_def)
  have i: "\<not> isinstance_ldm (demo_webui conv_ckpt) 500" "\<not> isinstance_sgm (demo_webui conv_ckpt) 500"
    by (simp_all add: demo_webui_def)
  show ?thesis
    using i by (simp add: compile_unet_def compile_step_def quantize_step_def c demo_calibrate_info q)
qed

section \<open>Parsing the calibration file\<close>

lemma split_on_no_sep: "sep \<notin> set a \<Longrightarrow> split_on sep a = [a]"
  by (induction a) auto

lemma split_on_append: "sep \<notin> set a \<Longrightarrow> split_on sep (a @ sep # b) = a # split_on sep b"
  by (induction a) auto

lemma split_on_join:
  "fl \<noteq> [] \<Longrightarrow> \<forall>f \<in> set fl. sep \<notin> set f \<Longrightarrow> split_on sep (join_with sep fl) = fl"
proof (induction sep fl rule: join_with.induct)
  case (1 sep)
  then show ?case by simp
next
  case (2 sep x)
  then show ?case by (simp add: split_on_no_sep)
next
  case (3 sep x y ys)
  then show ?case by (simp add: split_on_append)
qed

lemma strip_line:
  assumes "l \<noteq> []" "\<not> is_space (hd l)" "\<not> is_space (last l)"
  shows "strip (l @ [CHR 0x0A]) = l"
proof -
  obtain c cs where l: "l = c # cs" using assms(1) by (cases l) auto
  have nl: "is_space (CHR 0x0A)" by (simp add: is_space_def)
  have a: "dropWhile is_space (l @ [CHR 0x0A]) = l @ [CHR 0x0A]"
    using l assms(2) by simp
  obtain d ds where r: "rev l = d # ds" using assms(1) by (cases "rev l") auto
  have "hd (rev l) = last l" using assms(1) by (simp add: hd_rev)
  with r assms(3) have "\<not> is_space d" by simp
  then have b: "dropWhile is_space (rev l) = rev l" by (simp add: r)
  show ?thesis using a b nl by (simp add: strip_def)
qed

lemma readlines_line:
  assumes "CHR 0x0A \<notin> set l" "CHR 0x0D \<notin> set l"
  shows "readlines (l @ CHR 0x0A # rest) = (l @ [CHR 0x0A]) # readlines rest"
  using assms
proof (induction l)
  case Nil
  then show ?case by (cases rest) simp_all
next
  case (Cons c l)
  obtain d cs where d: "l @ CHR 0x0A # rest = d # cs" by (cases "l @ CHR 0x0A # rest") auto
  have "readlines (c # d # cs) = (case readlines (d # cs) of [] \<Rightarrow> [[c]] | x # xs \<Rightarrow> (c # x) # xs)"
    using Cons.prems by auto
  then show ?case using Cons d by simp
qed

lemma word_chars:
  "word w \<Longrightarrow> CHR 0x0A \<notin> set w \<and> CHR 0x0D \<notin> set w \<and> CHR '' '' \<notin> set w \<and> CHR '','' \<notin> set w"
  by (auto simp: word_def is_space_def)

lemma word_ends: "word w \<Longrightarrow> w \<noteq> [] \<and> \<not> is_space (hd w) \<and> \<not> is_space (last w)"
  by (auto simp: word_def)

lemma join_with_set:
  "c \<noteq> sep \<Longrightarrow> \<forall>f \<in> set fl. c \<notin> set f \<Longrightarrow> c \<notin> set (join_with sep fl)"
  by (induction sep fl rule: join_with.induct) auto

lemma join_with_last:
  "fl \<noteq> [] \<Longrightarrow> last fl \<noteq> [] \<Longrightarrow> join_with sep fl \<noteq> [] \<and> last (join_with sep fl) = last (last fl)"
  by (induction sep fl rule: join_with.induct) auto

lemma csv_facts:
  assumes "floats \<noteq> []" "\<forall>f \<in> set floats. word f"
  shows "CHR '' '' \<notin> set (join_with CHR '','' floats)"
    and "CHR 0x0A \<notin> set (join_with CHR '','' floats)"
    and "CHR 0x0D \<notin> set (join_with CHR '','' floats)"
    and "join_with CHR '','' floats \<noteq> []"
    and "\<not> is_space (last (join_with CHR '','' floats))"
    and "split_on CHR '','' (join_with CHR '','' floats) = floats"
proof -
  show "CHR '' '' \<notin> set (join_with CHR '','' floats)"
    using assms(2) by (intro join_with_set) (auto dest: word_chars)
  show "CHR 0x0A \<notin> set (join_with CHR '','' floats)"
    using assms(2) by (intro join_with_set) (auto dest: word_chars)
  show "CHR 0x0D \<notin> set (join_with CHR '','' floats)"
    using assms(2) by (intro join_with_set) (auto dest: word_chars)
  have l: "word (last floats)" using assms by simp
  then have "last floats \<noteq> []" by (simp add: word_def)
  then have j: "join_with CHR '','' floats \<noteq> [] \<and>
                last (join_with CHR '','' floats) = last (last floats)"
    using assms(1) by (rule join_with_last [rotated])
  then show "join_with CHR '','' floats \<noteq> []" by simp
  show "\<not> is_space (last (join_with CHR '','' floats))"
    using j l by (simp add: word_ends)
  show "split_on CHR '','' (join_with CHR '','' floats) = floats"
    using assms by (intro split_on_join) (auto dest: word_chars)
qed

lemma entry_of_line:
  assumes "well_formed r"
  shows "calibrate_entry env (calibration_line r @ [CHR 0x0A]) = expected_entry env r"
proof -
  obtain name scale zero_point floats where r: "r = (name, scale, zero_point, floats)"
    by (cases r) auto
  let ?csv = "join_with CHR '','' floats"
  let ?line = "name @ CHR '' '' # scale @ CHR '' '' # zero_point @ CHR '' '' # ?csv"
  from assms r have w: "word name" "word scale" "word zero_point"
    and f: "floats \<noteq> []" "\<forall>f \<in> set floats. word f"
    by (simp_all add: well_formed_def)
  note c = csv_facts [OF f]
  have line: "calibration_line r = ?line" by (simp add: calibration_line_def r)
  have ne: "?line \<noteq> []" using w(1) by (simp add: word_def)
  have h: "\<not> is_space (hd ?line)" using w(1) by (cases name) (auto simp: word_def)
  have l: "\<not> is_space (last ?line)" using c(4,5) by simp
  have s: "strip (?line @ [CHR 0x0A]) = ?line"
    by (rule strip_line [OF ne h l])
  have items: "split_on CHR '' '' ?line = [name, scale, zero_point, ?csv]"
    using w c(1) by (simp add: split_on_append split_on_no_sep word_chars)
  show ?thesis
    unfolding line calibrate_entry_def s Let_def items
    by (simp add: expected_entry_def r c(6) split: sum.splits)
qed

lemma line_no_breaks:
  assumes "well_formed r"
  shows "CHR 0x0A \<notin> set (calibration_line r) \<and> CHR 0x0D \<notin> set (calibration_line r)"
proof -
  obtain name scale zero_point floats where r: "r = (name, scale, zero_point, floats)"
    by (cases r) auto
  from assms r have w: "word name" "word scale" "word zero_point"
    and f: "floats \<noteq> []" "\<forall>f \<in> set floats. word f"
    by (simp_all add: well_formed_def)
  note c = csv_facts [OF f]
  show ?thesis
    using w c(2,3) by (simp add: calibration_line_def r word_chars)
qed

lemma readlines_file:
  "\<forall>r \<in> set rs. well_formed r \<Longrightarrow>
   readlines (calibration_file rs) = map (\<lambda>r. calibration_line r @ [CHR 0x0A]) rs"
proof (induction rs)
  case Nil
  then show ?case by (simp add: calibration_file_def)
next
  case (Cons r rs)
  then have "readlines (calibration_line r @ CHR 0x0A # calibration_file rs)
             = (calibration_line r @ [CHR 0x0A]) # readlines (calibration_file rs)"
    by (intro readlines_line) (simp_all add: line_no_breaks)
  with Cons show ?case by (simp add: calibration_file_def)
qed

lemma calibrate_lines_entries:
  assumes "list_all2 (\<lambda>r p. expected_entry env r = Inr p) rs ps"
    and "\<forall>r \<in> set rs. well_formed r"
  shows "calibrate_lines env (map (\<lambda>r. calibration_line r @ [CHR 0x0A]) rs) info
           = Inr (info ++ map_of (rev ps))"
  using assms
proof (induction rs ps arbitrary: info rule: list_all2_induct)
  case Nil
  then show ?case by simp
next
  case (Cons r rs p ps)
  obtain name entry where p: "p = (name, entry)" by (cases p) auto
  have e: "calibrate_entry env (calibration_line r @ [CHR 0x0A]) = Inr (name, entry)"
    using Cons.hyps(1) Cons.prems p by (simp add: entry_of_line)
  have "calibrate_lines env (map (\<lambda>r. calibration_line r @ [CHR 0x0A]) rs) (info(name \<mapsto> entry))
          = Inr (info(name \<mapsto> entry) ++ map_of (rev ps))"
    using Cons.IH Cons.prems by simp
  moreover have "info(name \<mapsto> entry) ++ map_of (rev ps) = info ++ map_of (rev (p # ps))"
    by (simp add: p map_add_upd_left fun_eq_iff map_add_def split: option.splits)
  ultimately show ?case using e by simp
qed

lemma demo_file:
  "calibration_file [(''conv1'', ''0.5'', ''3'', [''1.0'', ''2.0'', ''3.0''])]
     = ''conv1 0.5 3 1.0,2.0,3.0'' @ [CHR 0x0A]"
  by (simp add: calibration_file_def calibration_line_def)

text \<open>
  Claim C7. \<open>get_calibrate_info\<close> parses each line
  \<open><name> <scale> <zero_point> <comma-separated-floats>\<close> of an existing calibration
  file into the entry \<open>name -> [float(scale), int(zero_point), [floats]]\<close>. For a file
  made of well-formed lines on which \<open>float\<close> and \<open>int\<close> succeed, the result is the
  mapping of the parsed entries, a later line for a name replacing an earlier one, and
  the only effect is the log line.
\<close>

theorem get_calibrate_info_parses_lines:
  assumes "select_checkpoint env = Inr ckpt_file"
    and "fs env (joinpath (parent ckpt_file) filename) = Some (RegularFile (calibration_file rs))"
    and "\<forall>r \<in> set rs. well_formed r"
    and "list_all2 (\<lambda>r p. expected_entry env r = Inr p) rs ps"
  shows "get_calibrate_info env filename s =
           (Inr (Some (map_of (rev ps))), s\<lparr>events := events s @ [InfoGotCalibrateInfo]\<rparr>)"
proof -
  have "calibrate_lines env (readlines (calibration_file rs)) Map.empty
          = Inr (Map.empty ++ map_of (rev ps))"
    using readlines_file [OF assms(3)] calibrate_lines_entries [OF assms(4) assms(3)] by simp
  then show ?thesis
    using assms(1,2) by (simp add: get_calibrate_info_def Let_def)
qed

text \<open>
  The scenario of the specification: the line \<open>conv1 0.5 3 1.0,2.0,3.0\<close> yields the entry
  \<open>conv1 -> [0.5, 3, [1.0, 2.0, 3.0]]\<close>.
\<close>

theorem get_calibrate_info_parses_lines_witness:
  "select_checkpoint (demo_webui conv_ckpt) = Inr conv_ckpt \<and>
   fs (demo_webui conv_ckpt) (joinpath (parent conv_ckpt) ''conv_sd_calibrate_info.txt'')
     = Some (RegularFile (''conv1 0.5 3 1.0,2.0,3.0'' @ [CHR 0x0A])) \<and>
   well_formed (''conv1'', ''0.5'', ''3'', [''1.0'', ''2.0'', ''3.0'']) \<and>
   expected_entry (demo_webui conv_ckpt) (''conv1'', ''0.5'', ''3'', [''1.0'', ''2.0'', ''3.0''])
     = Inr (''conv1'', (1 / 2, 3, [1, 2, 3])) \<and>
   fst (get_calibrate_info (demo_webui conv_ckpt) ''conv_sd_calibrate_info.txt''
          (fresh_world ''conv'' sdxl_model (Obj (1::nat))))
     = Inr (Some [''conv1'' \<mapsto> (1 / 2, 3, [1, 2, 3])])"
proof -
  let ?r = "(''conv1'', ''0.5'', ''3'', [''1.0'', ''2.0'', ''3.0''])"
  have a: "select_checkpoint (demo_webui conv_ckpt) = Inr conv_ckpt"
    by (simp add: demo_webui_def)
  have b: "fs (demo_webui conv_ckpt) (joinpath (parent conv_ckpt) ''conv_sd_calibrate_info.txt'')
     = Some (RegularFile (calibration_file [?r]))"
    by (simp add: demo_webui_def demo_fs_def joinpath_def parent_def conv_ckpt_def demo_file)
  have c: "well_formed ?r"
    by (simp add: well_formed_def word_def is_space_def)
  have d: "expected_entry (demo_webui conv_ckpt) ?r = Inr (''conv1'', (1 / 2, 3, [1, 2, 3]))"
    by (simp add: expected_entry_def demo_webui_def decimal_float_def decimal_int_def digit_val_def)
  have c': "\<forall>r \<in> set [?r]. well_formed r" using c by simp
  have d': "list_all2 (\<lambda>r p. expected_entry (demo_webui conv_ckpt) r = Inr p) [?r]
              [(''conv1'', (1 / 2, 3, [1, 2, 3]))]"
    using d by simp
  have "fst (get_calibrate_info (demo_webui conv_ckpt) ''conv_sd_calibrate_info.txt''
          (fresh_world ''conv'' sdxl_model (Obj (1::nat))))
     = Inr (Some [''conv1'' \<mapsto> (1 / 2, 3, [1, 2, 3])])"
    using get_calibrate_info_parses_lines [OF a b c' d'] by simp
  then show ?thesis using a b c d by (simp add: demo_file)
qed

section \<open>A missing calibration file\<close>

text \<open>
  Claim C10. When the calibration file derived from the name of the selected checkpoint
  does not exist, \<open>get_calibrate_info\<close> returns \<open>None\<close> without raising and without
  any effect, and \<open>compile_unet\<close> with quantization on goes ahead: whatever module the
  compile step has produced is passed to \<open>quantize_model\<close> with \<open>calibrate_info=None\<close>,
  and the result of \<open>quantize_model\<close> is the result of \<open>compile_unet\<close>.
\<close>

theorem missing_calibration_file_gives_none:
  assumes "select_checkpoint env = Inr ckpt_file"
    and "fs env (joinpath (parent ckpt_file) (stem ckpt_file @ ''_sd_calibrate_info.txt'')) = None"
  shows "get_calibrate_info env (stem ckpt_file @ ''_sd_calibrate_info.txt'') s = (Inr None, s) \<and>
         (compile_step env unet_model args s = (Inr compiled, s1) \<longrightarrow>
            compile_unet env unet_model True args s = (quantize_model env compiled None, s1))"
proof -
  have g: "\<And>t. get_calibrate_info env (stem ckpt_file @ ''_sd_calibrate_info.txt'') t = (Inr None, t)"
    using assms by (simp add: get_calibrate_info_def Let_def)
  show ?thesis
    using g assms(1) by (simp add: compile_unet_def quantize_step_def)
qed

text \<open>
  No calibration file lies next to \<open>plain.safetensors\<close>: the LDM module 5 is compiled to
  1005 and quantized without calibration info to 11005.
\<close>

theorem missing_calibration_file_gives_none_witness:
  "select_checkpoint (demo_webui plain_ckpt) = Inr plain_ckpt \<and>
   fs (demo_webui plain_ckpt)
      (joinpath (parent plain_ckpt) (stem plain_ckpt @ ''_sd_calibrate_info.txt'')) = None \<and>
   compile_step (demo_webui plain_ckpt) (Obj 5) unit_args (fresh_world ''plain'' sdxl_model (Obj 5))
     = (Inr (Obj 1005), fresh_world ''plain'' sdxl_model (Obj 5)) \<and>
   get_calibrate_info (demo_webui plain_ckpt) (stem plain_ckpt @ ''_sd_calibrate_info.txt'')
      (fresh_world ''plain'' sdxl_model (Obj 5)) = (Inr None, fresh_world ''plain'' sdxl_model (Obj 5)) \<and>
   compile_unet (demo_webui plain_ckpt) (Obj 5) True unit_args (fresh_world ''plain'' sdxl_model (Obj 5))
     = (Inr (Obj 11005), fresh_world ''plain'' sdxl_model (Obj 5))"
proof -
  have a: "select_checkpoint (demo_webui plain_ckpt) = Inr plain_ckpt"
    by (simp add: demo_webui_def)
  have b: "fs (demo_webui plain_ckpt)
      (joinpath (parent plain_ckpt) (stem plain_ckpt @ ''_sd_calibrate_info.txt'')) = None"
    by (simp add: demo_webui_def demo_fs_def joinpath_def parent_def stem_def plain_ckpt_def Let_def)
  have c: "compile_step (demo_webui plain_ckpt) (Obj 5) unit_args (fresh_world ''plain'' sdxl_model (Obj 5))
     = (Inr (Obj 1005), fresh_world ''plain'' sdxl_model (Obj 5))"
    by (simp add: compile_step_def demo_webui_def)
  have q: "quantize_model (demo_webui plain_ckpt) (Obj 1005) None = Inr (Obj 11005)"
    by (simp add: demo_webui_def)
  show ?thesis
    using missing_calibration_file_gives_none [OF a b, of "fresh_world ''plain'' sdxl_model (Obj 5)"
        "Obj 5" unit_args "Obj 1005" "fresh_world ''plain'' sdxl_model (Obj 5)"] a b c q
    by simp
qed

section \<open>The graph handle of the wrapper\<close>





lemma forward_plain: "forward plain_decorators env = forward_body env"
  by (simp add: forward_def plain_decorators_def)

lemma built_module_arises:
  "snd (forward plain_decorators demo_oneflow 1 (set_graph_file (Some []) fresh_module)) = built_module"
  by (simp add: forward_plain forward_body_def get_graph_def read_oneflow_module_def
      set_graph_file_def clear_old_graph_def get_graph_file_def truthy_def demo_oneflow_def
      fresh_module_def built_module_def Let_def)







section \<open>Moving the wrapper to a device\<close>

text \<open>
  Claim C5. After a graph has been built on a device \<open>y\<close> (the wrapper holds a graph
  handle with at least one block whose first state tensor lies on \<open>y\<close>), a call of
  \<open>to\<close> whose arguments name a device \<open>x\<close> that \<open>check_device\<close> tells apart from \<open>y\<close>
  raises \<open>RuntimeError\<close> and leaves the wrapper exactly as it was: the dual module has
  not been moved and the graph handle is the same. When no graph handle exists yet,
  \<open>to\<close> is the call of \<open>to\<close> on the dual module and returns the wrapper.
\<close>

theorem to_rejects_other_device:
  "(dpl_graph w = Some g \<and> 0 < graph_blocks env g \<and>
    graph_state_devices env g = y # rest \<and> parse_device env args = Some x \<and>
    \<not> check_device env y x \<longrightarrow>
      (\<exists>msg. to env args w = (Inl (RuntimeError msg), w))) \<and>
   (dpl_graph w = None \<longrightarrow>
      to env args w =
        (case dual_to env args (dpl_model w) of
           Inl e \<Rightarrow> (Inl e, w)
         | Inr m \<Rightarrow> (Inr (), w\<lparr>dpl_model := m\<rparr>)))"
  by (auto simp: to_def delegate_to_def)

text \<open>
  The wrapper with its graph on \<open>cuda:0\<close> refuses \<open>to("cpu")\<close>; the fresh wrapper
  accepts it.
\<close>

theorem to_rejects_other_device_witness:
  "dpl_graph built_module = Some 108 \<and> 0 < graph_blocks demo_oneflow 108 \<and>
   graph_state_devices demo_oneflow 108 = [''cuda:0''] \<and>
   parse_device demo_oneflow (Some ''cpu'') = Some ''cpu'' \<and>
   \<not> check_device demo_oneflow ''cuda:0'' ''cpu'' \<and>
   (\<exists>msg. to demo_oneflow (Some ''cpu'') built_module = (Inl (RuntimeError msg), built_module)) \<and>
   dpl_graph fresh_module = None \<and>
   to demo_oneflow (Some ''cpu'') fresh_module = (Inr (), fresh_module)"
proof -
  have a: "dpl_graph built_module = Some 108" by (simp add: built_module_def)
  have b: "0 < graph_blocks demo_oneflow 108" "graph_state_devices demo_oneflow 108 = [''cuda:0'']"
    "parse_device demo_oneflow (Some ''cpu'') = Some ''cpu''"
    "\<not> check_device demo_oneflow ''cuda:0'' ''cpu''"
    by (simp_all add: demo_oneflow_def)
  have n: "dpl_graph fresh_module = None" by (simp add: fresh_module_def)
  have d: "dual_to demo_oneflow (Some ''cpu'') (dpl_model fresh_module) = Inr (dpl_model fresh_module)"
    by (simp add: demo_oneflow_def)
  have "\<exists>msg. to demo_oneflow (Some ''cpu'') built_module = (Inl (RuntimeError msg), built_module)"
    using to_rejects_other_device
      [of built_module 108 demo_oneflow "''cuda:0''" "[]" "Some ''cpu''" "''cpu''"]
      a b by blast
  moreover have "to demo_oneflow (Some ''cpu'') fresh_module = (Inr (), fresh_module)"
    using to_rejects_other_device
      [of fresh_module 0 demo_oneflow "''cuda:0''" "[]" "Some ''cpu''" "''cpu''"]
      n d by simp
  ultimately show ?thesis using a b n by blast
qed

section \<open>Changing the graph file\<close>

lemma set_graph_file_same:
  "p \<noteq> [] \<Longrightarrow> get_graph_file w = Some p \<Longrightarrow> set_graph_file (Some p) w = w"
  by (simp add: set_graph_file_def truthy_def)

lemma set_graph_file_other:
  "get_graph_file w \<noteq> fp \<or> \<not> truthy fp \<Longrightarrow>
   set_graph_file fp w =
     w\<lparr>opt_graph_file := fp, load_graph_first_run := True, dpl_graph := None,
       dpl_model := (dpl_model w)\<lparr>oneflow_module := None\<rparr>\<rparr>"
  by (auto simp: set_graph_file_def clear_old_graph_def Let_def)

lemma get_graph_rebuilds:
  assumes "dpl_graph w = None" "oneflow_module (dpl_model w) = None"
    and "torch2oflow env (torch_module (dpl_model w)) = Inr om"
    and "get_oneflow_graph env om (opt_max_cached_graph_size w) (enable_dynamic w) = Inr g"
  shows "dpl_graph (snd (get_graph env w)) = Some g \<and> builds (snd (get_graph env w)) = Suc (builds w)"
  using assms
  by (simp add: get_graph_def read_oneflow_module_def Let_def split: sum.splits)

text \<open>
  Claim C4, as the code has it. The claim reads: for every path \<open>p\<close>, a second
  \<open>set_graph_file(p)\<close> with the same \<open>p\<close> leaves the wrapper unchanged, and a call with
  a path different from the current graph file discards the built graph. The test of
  the code is \<open>file_path and old_file_path == file_path\<close>, so the first half holds for
  every path that is not empty: after \<open>set_graph_file(p)\<close> the graph file is \<open>p\<close>, and
  on a wrapper whose graph file is \<open>p\<close> the call changes nothing, whatever has been
  built in between. For a path that differs from the current graph file, and for the
  empty path and \<open>None\<close> always, the call records the path, sets the first-run flag,
  drops the graph handle and the compiled counterpart of the dual module; the next
  \<open>get_graph\<close> then builds a graph again when the collaborators deliver one.
\<close>

theorem set_graph_file_same_path_keeps_other_path_discards:
  "(p \<noteq> [] \<and> get_graph_file w = Some p \<longrightarrow> set_graph_file (Some p) w = w) \<and>
   (p \<noteq> [] \<longrightarrow> get_graph_file (set_graph_file (Some p) w) = Some p) \<and>
   (get_graph_file w \<noteq> fp \<or> \<not> truthy fp \<longrightarrow>
      set_graph_file fp w =
        w\<lparr>opt_graph_file := fp, load_graph_first_run := True, dpl_graph := None,
          dpl_model := (dpl_model w)\<lparr>oneflow_module := None\<rparr>\<rparr> \<and>
      (torch2oflow env (torch_module (dpl_model w)) = Inr om \<and>
       get_oneflow_graph env om (opt_max_cached_graph_size w) (enable_dynamic w) = Inr g \<longrightarrow>
         dpl_graph (snd (get_graph env (set_graph_file fp w))) = Some g \<and>
         builds (snd (get_graph env (set_graph_file fp w))) = Suc (builds w)))"
proof (intro conjI impI)
  assume "p \<noteq> [] \<and> get_graph_file w = Some p"
  then show "set_graph_file (Some p) w = w" by (simp add: set_graph_file_same)
next
  assume "p \<noteq> []"
  then show "get_graph_file (set_graph_file (Some p) w) = Some p"
    by (simp add: set_graph_file_def get_graph_file_def clear_old_graph_def truthy_def Let_def)
next
  assume "get_graph_file w \<noteq> fp \<or> \<not> truthy fp"
  then show "set_graph_file fp w =
        w\<lparr>opt_graph_file := fp, load_graph_first_run := True, dpl_graph := None,
          dpl_model := (dpl_model w)\<lparr>oneflow_module := None\<rparr>\<rparr>"
    by (rule set_graph_file_other)
next
  assume d: "get_graph_file w \<noteq> fp \<or> \<not> truthy fp"
    and c: "torch2oflow env (torch_module (dpl_model w)) = Inr om \<and>
       get_oneflow_graph env om (opt_max_cached_graph_size w) (enable_dynamic w) = Inr g"
  let ?w = "set_graph_file fp w"
  have e: "?w = w\<lparr>opt_graph_file := fp, load_graph_first_run := True, dpl_graph := None,
          dpl_model := (dpl_model w)\<lparr>oneflow_module := None\<rparr>\<rparr>"
    using d by (rule set_graph_file_other)
  have r: "dpl_graph (snd (get_graph env ?w)) = Some g \<and>
           builds (snd (get_graph env ?w)) = Suc (builds ?w)"
    using c by (intro get_graph_rebuilds [where om = om]) (simp_all add: e)
  from r show "dpl_graph (snd (get_graph env ?w)) = Some g" by simp
  from r show "builds (snd (get_graph env ?w)) = Suc (builds w)" by (simp add: e)
qed

text \<open>
  With the graph file \<open>/tmp/g1\<close>, \<open>set_graph_file("/tmp/g1")\<close> changes nothing; on the
  wrapper holding the graph 108, \<open>set_graph_file("/tmp/g2")\<close> drops the graph and the
  next \<open>get_graph\<close> builds the second one.
\<close>

theorem set_graph_file_same_path_keeps_other_path_discards_witness:
  "get_graph_file (built_module\<lparr>opt_graph_file := Some ''/tmp/g1''\<rparr>) = Some ''/tmp/g1'' \<and>
   set_graph_file (Some ''/tmp/g1'') (built_module\<lparr>opt_graph_file := Some ''/tmp/g1''\<rparr>)
     = built_module\<lparr>opt_graph_file := Some ''/tmp/g1''\<rparr> \<and>
   get_graph_file built_module \<noteq> Some ''/tmp/g2'' \<and>
   dpl_graph built_module = Some 108 \<and>
   dpl_graph (set_graph_file (Some ''/tmp/g2'') built_module) = None \<and>
   get_graph_file (set_graph_file (Some ''/tmp/g2'') built_module) = Some ''/tmp/g2'' \<and>
   builds (snd (get_graph demo_oneflow (set_graph_file (Some ''/tmp/g2'') built_module))) = 2"
proof -
  let ?w = "built_module\<lparr>opt_graph_file := Some ''/tmp/g1''\<rparr>"
  have a: "''/tmp/g1'' \<noteq> [] \<and> get_graph_file ?w = Some ''/tmp/g1''"
    by (simp add: get_graph_file_def)
  have b: "get_graph_file built_module \<noteq> Some ''/tmp/g2'' \<or> \<not> truthy (Some ''/tmp/g2'')"
    by (simp add: get_graph_file_def built_module_def)
  have c: "torch2oflow demo_oneflow (torch_module (dpl_model built_module)) = Inr 8 \<and>
           get_oneflow_graph demo_oneflow 8 (opt_max_cached_graph_size built_module)
             (enable_dynamic built_module) = Inr 108"
    by (simp add: demo_oneflow_def built_module_def)
  have d: "dpl_graph built_module = Some 108" "builds built_module = 1"
    by (simp_all add: built_module_def)
  have ne: "''/tmp/g2'' \<noteq> []" by simp
  have s: "set_graph_file (Some ''/tmp/g1'') ?w = ?w"
    using set_graph_file_same_path_keeps_other_path_discards
      [of "''/tmp/g1''" ?w "Some ''/tmp/g1''" demo_oneflow 8 108] a by blast
  have g: "get_graph_file (set_graph_file (Some ''/tmp/g2'') built_module) = Some ''/tmp/g2''"
    using set_graph_file_same_path_keeps_other_path_discards
      [of "''/tmp/g2''" built_module "Some ''/tmp/g2''" demo_oneflow 8 108] ne by blast
  have o: "set_graph_file (Some ''/tmp/g2'') built_module =
        built_module\<lparr>opt_graph_file := Some ''/tmp/g2'', load_graph_first_run := True,
          dpl_graph := None, dpl_model := (dpl_model built_module)\<lparr>oneflow_module := None\<rparr>\<rparr>"
    using set_graph_file_same_path_keeps_other_path_discards
      [of "''/tmp/g2''" built_module "Some ''/tmp/g2''" demo_oneflow 8 108] b by blast
  have o2: "builds (snd (get_graph demo_oneflow (set_graph_file (Some ''/tmp/g2'') built_module)))
         = Suc (builds built_module)"
    using set_graph_file_same_path_keeps_other_path_discards
      [of "''/tmp/g2''" built_module "Some ''/tmp/g2''" demo_oneflow 8 108] b c by blast
  have n: "dpl_graph (set_graph_file (Some ''/tmp/g2'') built_module) = None"
    by (simp add: o)
  have a1: "get_graph_file ?w = Some ''/tmp/g1''" using a by simp
  have b1: "get_graph_file built_module \<noteq> Some ''/tmp/g2''"
    by (simp add: get_graph_file_def built_module_def)
  have two: "builds (snd (get_graph demo_oneflow (set_graph_file (Some ''/tmp/g2'') built_module))) = 2"
    using o2 d(2) by simp
  show ?thesis using a1 s b1 d(1) n g two by blast
qed

text \<open>
  The empty path twice, with a call of \<open>forward\<close> in between: the first call and
  \<open>forward\<close> lead to the wrapper holding the graph 108 with the graph file \<open>""\<close>, and
  the second call with the same path drops that graph and the compiled counterpart.
\<close>

theorem set_graph_file_empty_path_counterexample:
  "snd (forward plain_decorators demo_oneflow 1 (set_graph_file (Some []) fresh_module)) = built_module \<and>
   dpl_graph built_module = Some 108 \<and>
   get_graph_file built_module = Some [] \<and>
   set_graph_file (Some []) built_module \<noteq> built_module \<and>
   dpl_graph (set_graph_file (Some []) built_module) = None \<and>
   oneflow_module (dpl_model (set_graph_file (Some []) built_module)) = None"
proof -
  have "dpl_graph (set_graph_file (Some []) built_module) = None \<and>
        oneflow_module (dpl_model (set_graph_file (Some []) built_module)) = None"
    by (simp add: set_graph_file_def clear_old_graph_def truthy_def Let_def)
  moreover have "dpl_graph built_module = Some 108 \<and> get_graph_file built_module = Some []"
    by (simp add: built_module_def get_graph_file_def)
  ultimately show ?thesis
    using built_module_arises by auto
qed

section \<open>The tensor bridge\<close>

lemma to_torch_each_tensors:
  assumes "\<forall>t. to_torch rt (BackendTensor (from_torch rt (contiguous rt t))) = Inr (HostTensor t)"
  shows "to_torch_each rt (map (to_backend rt) (map HostTensor ts)) = Inr (map HostTensor ts)"
  using assms by (induction ts) (simp_all add: to_backend_def input_fn_def)

lemma to_backend_tuple: "to_backend rt (PyTuple xs) = PyTuple (map (to_backend rt) xs)"
  unfolding to_backend_def by simp

text \<open>
  Claim C3, as the code has it. The claim reads: for every host tensor, scalar or nested
  structure \<open>x\<close>, converting to the backend and back yields \<open>x\<close>. The conversion on the
  way in is recursive and passes every leaf that is no host tensor through unchanged;
  the conversion on the way out is not: it converts the elements of a tuple one by one
  and hands every other output to \<open>to_torch\<close> as a whole. For a tensor runtime whose
  \<open>to_torch\<close> undoes \<open>from_torch\<close> after \<open>contiguous\<close> on every host tensor, the round
  trip therefore returns \<open>x\<close> when \<open>x\<close> is a host tensor or a tuple of host tensors. A
  scalar, a list or a mapping comes back as whatever \<open>to_torch\<close> makes of it.
\<close>

theorem bridge_round_trip_on_tensors:
  assumes "\<forall>t. to_torch rt (BackendTensor (from_torch rt (contiguous rt t))) = Inr (HostTensor t)"
  shows "to_host rt (to_backend rt (HostTensor t)) = Inr (HostTensor t) \<and>
         to_host rt (to_backend rt (PyTuple (map HostTensor ts))) = Inr (PyTuple (map HostTensor ts)) \<and>
         to_backend rt (Scalar c) = Scalar c \<and>
         to_host rt (Scalar c) = to_torch rt (Scalar c) \<and>
         to_host rt (to_backend rt (PyList vs)) = to_torch rt (PyList (map (to_backend rt) vs)) \<and>
         to_host rt (to_backend rt (PyDict kvs))
           = to_torch rt (PyDict (map (map_prod id (to_backend rt)) kvs))"
proof (intro conjI)
  show "to_host rt (to_backend rt (HostTensor t)) = Inr (HostTensor t)"
    using assms by (simp add: to_host_def to_backend_def input_fn_def)
  show "to_host rt (to_backend rt (PyTuple (map HostTensor ts))) = Inr (PyTuple (map HostTensor ts))"
    using to_torch_each_tensors [OF assms, of ts]
    by (simp add: to_host_def to_backend_tuple)
  show "to_backend rt (Scalar c) = Scalar c"
    by (simp add: to_backend_def input_fn_def)
  show "to_host rt (Scalar c) = to_torch rt (Scalar c)"
    by (simp add: to_host_def)
  show "to_host rt (to_backend rt (PyList vs)) = to_torch rt (PyList (map (to_backend rt) vs))"
    by (simp add: to_host_def to_backend_def [abs_def])
  show "to_host rt (to_backend rt (PyDict kvs))
           = to_torch rt (PyDict (map (map_prod id (to_backend rt)) kvs))"
    by (simp add: to_host_def to_backend_def [abs_def])
qed

text \<open>A tensor and a pair of tensors survive the round trip through the strict runtime.\<close>

theorem bridge_round_trip_on_tensors_witness:
  "(\<forall>t. to_torch strict_runtime (BackendTensor (from_torch strict_runtime (contiguous strict_runtime t)))
          = Inr (HostTensor t)) \<and>
   to_host strict_runtime (to_backend strict_runtime (HostTensor 7)) = Inr (HostTensor 7) \<and>
   to_host strict_runtime (to_backend strict_runtime (PyTuple [HostTensor 7, HostTensor 8]))
     = Inr (PyTuple [HostTensor 7, HostTensor 8])"
proof -
  have h: "\<forall>t. to_torch strict_runtime
                 (BackendTensor (from_torch strict_runtime (contiguous strict_runtime t)))
               = Inr (HostTensor t)"
    by (simp add: strict_runtime_def)
  show ?thesis
    using bridge_round_trip_on_tensors [OF h, of 7 "[7, 8]"] h by simp
qed

text \<open>
  With the strict runtime, which does convert every tensor back to itself, the list of
  one tensor and the scalar 1 do not come back: \<open>to_torch\<close> receives the list, or the
  scalar, itself.
\<close>

theorem bridge_round_trip_nested_counterexample:
  "to_torch strict_runtime (BackendTensor (from_torch strict_runtime (contiguous strict_runtime 7)))
     = Inr (HostTensor 7) \<and>
   to_host strict_runtime (to_backend strict_runtime (PyList [HostTensor 7])) = Inl AssertionError \<and>
   to_host strict_runtime (to_backend strict_runtime (PyList [HostTensor 7]))
     \<noteq> Inr (PyList [HostTensor 7]) \<and>
   to_host strict_runtime (to_backend strict_runtime (Scalar 1)) \<noteq> Inr (Scalar 1)"
  by (simp add: to_host_def to_backend_def input_fn_def strict_runtime_def)

end
